theory Spec2Isabelle
  imports Complex_Main
begin

section \<open>JavaScript built-ins used by the sources\<close>

subsection \<open>Character classes\<close>

text \<open>
  \<open>is_space\<close> is the class \<open>\s\<close> (and the white space that \<open>parseInt\<close> and \<open>parseFloat\<close>
  skip) on code units below 256: TAB, LF, VT, FF, CR, SP and NBSP.  \<open>is_word\<close> is \<open>\w\<close>.
\<close>

definition is_space :: "char \<Rightarrow> bool" where
  "is_space c = (of_char c \<in> {9, 10, 11, 12, 13, 32, 160 :: nat})"

definition is_digit :: "char \<Rightarrow> bool" where
  "is_digit c = (48 \<le> (of_char c :: nat) \<and> (of_char c :: nat) \<le> 57)"

definition is_upper :: "char \<Rightarrow> bool" where
  "is_upper c = (65 \<le> (of_char c :: nat) \<and> (of_char c :: nat) \<le> 90)"

definition is_lower :: "char \<Rightarrow> bool" where
  "is_lower c = (97 \<le> (of_char c :: nat) \<and> (of_char c :: nat) \<le> 122)"

definition is_alpha :: "char \<Rightarrow> bool" where
  "is_alpha c = (is_upper c \<or> is_lower c)"

definition is_word :: "char \<Rightarrow> bool" where
  "is_word c = (is_alpha c \<or> is_digit c \<or> c = CHR ''_'')"

text \<open>
  \<open>toLowerCase\<close> on code units below 256: \<open>A\<close>..\<open>Z\<close> and the Latin-1 capitals
  (192..222 without 215) move up by 32.
\<close>

definition lower_char :: "char \<Rightarrow> char" where
  "lower_char c =
     (let n = (of_char c :: nat)
      in if is_upper c \<or> (192 \<le> n \<and> n \<le> 222 \<and> n \<noteq> 215) then char_of (n + 32) else c)"

definition toLowerCase :: "string \<Rightarrow> string" where
  "toLowerCase s = map lower_char s"

subsection \<open>Numbers and their decimal strings\<close>

definition digit_val :: "char \<Rightarrow> nat" where
  "digit_val c = of_char c - 48"

definition nat_of_digits :: "string \<Rightarrow> nat" where
  "nat_of_digits ds = foldl (\<lambda>n c. 10 * n + digit_val c) 0 ds"

fun show_nat :: "nat \<Rightarrow> string" where
  "show_nat n = (if n < 10 then [''0123456789'' ! n]
                 else show_nat (n div 10) @ [''0123456789'' ! (n mod 10)])"

declare show_nat.simps [simp del]

definition show_int :: "int \<Rightarrow> string" where
  "show_int i = (if i < 0 then CHR ''-'' # show_nat (nat (- i)) else show_nat (nat i))"

text \<open>
  The result of \<open>parseFloat\<close>.  A finite result carries the exact value of the decimal
  literal that was read; the rounding of that value to a double is not modelled (it changes
  nothing on integers below \<open>2^53\<close>).
\<close>

datatype jsnum = NaN | Num rat | PosInf | NegInf

fun js_lt :: "jsnum \<Rightarrow> jsnum \<Rightarrow> bool" where
  "js_lt NaN _ = False"
| "js_lt _ NaN = False"
| "js_lt (Num x) (Num y) = (x < y)"
| "js_lt _ NegInf = False"
| "js_lt PosInf _ = False"
| "js_lt NegInf _ = True"
| "js_lt _ PosInf = True"

definition js_gt :: "jsnum \<Rightarrow> jsnum \<Rightarrow> bool" where
  "js_gt a b = js_lt b a"

definition strip_sign :: "string \<Rightarrow> bool \<times> string" where
  "strip_sign s = (case s of
       c # r \<Rightarrow> (if c = CHR ''-'' then (True, r) else if c = CHR ''+'' then (False, r)
                 else (False, s))
     | [] \<Rightarrow> (False, s))"

definition exponent_part :: "string \<Rightarrow> int" where
  "exponent_part s = (case s of
       c # r \<Rightarrow> (if c = CHR ''e'' \<or> c = CHR ''E''
                 then (let (neg, t) = strip_sign r; ds = takeWhile is_digit t
                       in if ds = [] then 0
                          else if neg then - int (nat_of_digits ds) else int (nat_of_digits ds))
                 else 0)
     | [] \<Rightarrow> 0)"

definition parseFloat :: "string \<Rightarrow> jsnum" where
  "parseFloat s =
     (let (neg, u) = strip_sign (dropWhile is_space s) in
      if take 8 u = ''Infinity'' then (if neg then NegInf else PosInf)
      else
        let ip = takeWhile is_digit u;
            r1 = dropWhile is_digit u;
            dot = (r1 \<noteq> [] \<and> hd r1 = CHR ''.'');
            fp = (if dot then takeWhile is_digit (tl r1) else []);
            r2 = (if dot then dropWhile is_digit (tl r1) else r1)
        in if ip = [] \<and> fp = [] then NaN
           else
             let m = of_nat (nat_of_digits (ip @ fp)) / 10 ^ length fp;
                 v = m * 10 powi exponent_part r2
             in Num (if neg then - v else v))"

text \<open>
  \<open>parseInt\<close> with no radix: white space is skipped, a sign and a \<open>0x\<close> prefix are read,
  then the longest run of digits; \<open>None\<close> is \<open>NaN\<close>.
\<close>

definition is_hex :: "char \<Rightarrow> bool" where
  "is_hex c = (is_digit c \<or> (65 \<le> (of_char c :: nat) \<and> (of_char c :: nat) \<le> 70)
                \<or> (97 \<le> (of_char c :: nat) \<and> (of_char c :: nat) \<le> 102))"

definition hex_val :: "char \<Rightarrow> nat" where
  "hex_val c = (if is_digit c then of_char c - 48
                else if is_upper c then of_char c - 55 else of_char c - 87)"

definition parseInt :: "string \<Rightarrow> int option" where
  "parseInt s =
     (let (neg, u) = strip_sign (dropWhile is_space s);
          hex = (take 2 u = ''0x'' \<or> take 2 u = ''0X'');
          ds = (if hex then takeWhile is_hex (drop 2 u) else takeWhile is_digit u);
          n = (if hex then foldl (\<lambda>n c. 16 * n + hex_val c) 0 ds else nat_of_digits ds)
      in if ds = [] then None else Some (if neg then - int n else int n))"

definition show_number :: "int option \<Rightarrow> string" where
  "show_number n = (case n of None \<Rightarrow> ''NaN'' | Some i \<Rightarrow> show_int i)"

text \<open>\<open>x.toFixed(2)\<close> for \<open>x = n / d\<close> with \<open>d > 0\<close>: the nearest multiple of 0.01, ties upwards.\<close>

definition toFixed2 :: "nat \<Rightarrow> nat \<Rightarrow> string" where
  "toFixed2 n d =
     (let h = (200 * n + d) div (2 * d)
      in show_nat (h div 100) @ ''.'' @ [''0123456789'' ! (h mod 100 div 10)]
           @ [''0123456789'' ! (h mod 10)])"

subsection \<open>Strings\<close>

text \<open>\<open>s.split(c)\<close> for a one-character separator: never the empty array.\<close>

fun js_split :: "char \<Rightarrow> string \<Rightarrow> string list" where
  "js_split sep [] = [[]]"
| "js_split sep (c # s) =
     (if c = sep then [] # js_split sep s
      else (case js_split sep s of p # ps \<Rightarrow> (c # p) # ps | [] \<Rightarrow> [[c]]))"

definition nth_opt :: "'a list \<Rightarrow> nat \<Rightarrow> 'a option" where
  "nth_opt xs i = (if i < length xs then Some (xs ! i) else None)"

definition padStart2 :: "string \<Rightarrow> string" where
  "padStart2 s = replicate (2 - length s) CHR ''0'' @ s"

subsection \<open>Regular expressions used with \<open>test\<close>\<close>

text \<open>
  Every pattern that \<open>Validator.js\<close> passes to \<open>test\<close> is anchored at both ends and has
  neither flags nor back references, so \<open>test\<close> decides membership in the pattern's
  language.  Membership is computed with derivatives.
\<close>

datatype rx = RNul | REps | RCls "char \<Rightarrow> bool" | RSeq rx rx | RAlt rx rx | RStar rx

fun nullable :: "rx \<Rightarrow> bool" where
  "nullable RNul = False"
| "nullable REps = True"
| "nullable (RCls p) = False"
| "nullable (RSeq a b) = (nullable a \<and> nullable b)"
| "nullable (RAlt a b) = (nullable a \<or> nullable b)"
| "nullable (RStar a) = True"

fun deriv :: "char \<Rightarrow> rx \<Rightarrow> rx" where
  "deriv c RNul = RNul"
| "deriv c REps = RNul"
| "deriv c (RCls p) = (if p c then REps else RNul)"
| "deriv c (RSeq a b) =
     (if nullable a then RAlt (RSeq (deriv c a) b) (deriv c b) else RSeq (deriv c a) b)"
| "deriv c (RAlt a b) = RAlt (deriv c a) (deriv c b)"
| "deriv c (RStar a) = RSeq (deriv c a) (RStar a)"

definition rx_test :: "rx \<Rightarrow> string \<Rightarrow> bool" where
  "rx_test r s = nullable (foldl (\<lambda>r c. deriv c r) r s)"

definition RPlus :: "rx \<Rightarrow> rx" where
  "RPlus a = RSeq a (RStar a)"

definition ROpt :: "rx \<Rightarrow> rx" where
  "ROpt a = RAlt a REps"

fun RLit :: "string \<Rightarrow> rx" where
  "RLit [] = REps"
| "RLit (c # s) = RSeq (RCls (\<lambda>x. x = c)) (RLit s)"

section \<open>The page: fields, events and the validator's state\<close>

text \<open>
  A jQuery object handed to a \<open>Validator\<close> method is modelled as one field of the page,
  named by a reference into the page (\<open>page\<close>).  JavaScript strings are lists of code units;
  the code units are taken in the range 0..255.

  \<open>kind\<close> records which of the selectors used by \<open>Validator.js\<close> the field matches:
  \<open>InputText\<close> is \<open>input[type="text"]\<close>, \<open>Select\<close> is \<open>select\<close>, and so on;
  \<open>OtherElement\<close> matches none of them.
\<close>

datatype kind =
    InputText | InputEmail | InputPassword | InputNumber
  | InputRadio | InputCheckbox | InputFile
  | InputDate | InputDatetimeLocal | InputTime | InputUrl | InputTel
  | Select | Textarea | OtherElement

datatype event = Keyup | Change

record upload =
  f_name :: string
  f_type :: string
  f_size :: nat

text \<open>
  \<open>el_id\<close> is \<open>element.attr('id')\<close> (\<open>None\<close> for \<open>undefined\<close>), \<open>el_val\<close> is
  \<open>element.val()\<close>, \<open>el_checked\<close> is \<open>element.filter(':checked').val()\<close>
  (\<open>None\<close> for \<open>undefined\<close>), \<open>el_files\<close> is \<open>element.get(0).files\<close>.
  \<open>el_invalid\<close> is the class \<open>is-invalid\<close> on the field, \<open>el_select2_invalid\<close> the same
  class on the \<open>.select2-selection\<close> of the enclosing \<open>parentClass\<close> container, and
  \<open>el_message\<close> the HTML of the \<open>messageClass\<close> region of that container.
  Every handler that \<open>Validator.js\<close> registers is the closure
  \<open>() => this.#setErrorMessage(element)\<close>, so a registration is recorded by the list of
  event names it was made for.
\<close>

record element =
  el_id :: "string option"
  el_kind :: kind
  el_val :: string
  el_checked :: "string option"
  el_files :: "upload list"
  el_invalid :: bool
  el_select2_invalid :: bool
  el_message :: string
  el_listeners :: "event list list"

type_synonym ref = nat

type_synonym error_entry = "string option \<times> string"

text \<open>
  The first four fields are those of the \<open>Validator\<close> instance; \<open>page\<close> is the document and
  \<open>console\<close> the objects written with \<open>console.error\<close>.
\<close>

record state =
  errors :: nat
  errorMessages :: "error_entry list"
  parentClass :: string
  messageClass :: string
  page :: "ref \<Rightarrow> element"
  console :: "error_entry list list"

datatype exn = Error string

definition constructor :: "(ref \<Rightarrow> element) \<Rightarrow> error_entry list list \<Rightarrow> state" where
  "constructor pg out =
     \<lparr> errors = 0, errorMessages = [], parentClass = ''.form-group'',
       messageClass = ''.validation-message'', page = pg, console = out \<rparr>"

subsection \<open>jQuery accessors\<close>

definition is_sel :: "ref \<Rightarrow> kind list \<Rightarrow> state \<Rightarrow> bool" where
  "is_sel element sel w = (el_kind (page w element) \<in> set sel)"

definition val :: "ref \<Rightarrow> state \<Rightarrow> string" where
  "val element w = el_val (page w element)"

definition js_str :: "string option \<Rightarrow> string" where
  "js_str i = (case i of None \<Rightarrow> ''undefined'' | Some s \<Rightarrow> s)"

definition on :: "ref \<Rightarrow> event list \<Rightarrow> state \<Rightarrow> state" where
  "on element events w =
     w\<lparr>page := (page w)(element :=
          (page w element)\<lparr>el_listeners := el_listeners (page w element) @ [events]\<rparr>)\<rparr>"

subsection \<open>\<open>#setErrorMessage\<close>\<close>

definition setErrorMessage :: "ref \<Rightarrow> string \<Rightarrow> state \<Rightarrow> state" where
  "setErrorMessage element message w =
     (let e = page w element;
          sel = (el_kind e = Select);
          e1 = (if sel then e\<lparr>el_select2_invalid := (message \<noteq> '''')\<rparr> else e);
          m1 = (if sel \<and> message \<noteq> '''' then errorMessages w @ [(el_id e, message)]
                else errorMessages w);
          e2 = e1\<lparr>el_invalid := (message \<noteq> '''')\<rparr>;
          m2 = (if message \<noteq> '''' then m1 @ [(Some (CHR ''#'' # js_str (el_id e)), message)]
                else m1);
          e3 = e2\<lparr>el_message := message\<rparr>
      in w\<lparr>errorMessages := m2, page := (page w)(element := e3)\<rparr>)"

text \<open>
  The failing branch shared by every check: \<open>this.errors++\<close>, the message is set, the
  clearing handler is registered, and the method returns \<open>false\<close>.
\<close>

definition invalid :: "ref \<Rightarrow> string \<Rightarrow> event list \<Rightarrow> state \<Rightarrow> bool \<times> state" where
  "invalid element msg events w =
     (False, on element events (setErrorMessage element msg (w\<lparr>errors := errors w + 1\<rparr>)))"

definition or_default :: "string \<Rightarrow> string \<Rightarrow> string" where
  "or_default message dflt = (if message \<noteq> '''' then message else dflt)"

subsection \<open>General validation\<close>

definition required :: "ref \<Rightarrow> string \<Rightarrow> state \<Rightarrow> bool \<times> state" where
  "required element message w0 =
     (let w = setErrorMessage element '''' w0 in
      if is_sel element [InputText, InputEmail, InputPassword, InputNumber, Select, Textarea] w
         \<and> val element w = ''''
      then invalid element (or_default message ''Wajib diisi.'') [Keyup, Change] w
      else if is_sel element [InputRadio, InputCheckbox] w
              \<and> el_checked (page w element) = None
      then invalid element (or_default message ''Wajib dipilih.'') [Change] w
      else if is_sel element [InputFile] w \<and> length (el_files (page w element)) = 0
      then invalid element (or_default message ''Wajib diunggah.'') [Change] w
      else (True, w))"

definition requiredIf :: "ref \<Rightarrow> ref \<Rightarrow> string \<Rightarrow> string \<Rightarrow> state \<Rightarrow> bool \<times> state" where
  "requiredIf element otherElement expectedValue message w0 =
     (let w = setErrorMessage element '''' w0 in
      if val otherElement w = expectedValue \<and> val element w = ''''
      then invalid element (or_default message ''Field ini wajib diisi.'') [Keyup, Change] w
      else (True, w))"

definition equalTo :: "ref \<Rightarrow> ref \<Rightarrow> string \<Rightarrow> state \<Rightarrow> bool \<times> state" where
  "equalTo element targetElement message w0 =
     (let w = setErrorMessage element '''' w0 in
      if val element w \<noteq> val targetElement w
      then invalid element (or_default message ''Input tidak sama.'') [Keyup, Change] w
      else (True, w))"

text \<open>
  Of \<open>[true, false, 'true', 'false', 1, 0, '1', '0']\<close> only the four strings can be
  \<open>includes\<close>-equal to a value that is a string.
\<close>

definition boolean :: "ref \<Rightarrow> string \<Rightarrow> state \<Rightarrow> bool \<times> state" where
  "boolean element message w0 =
     (let w = setErrorMessage element '''' w0;
          v = val element w
      in if v \<notin> set [''true'', ''false'', ''1'', ''0'']
         then invalid element (or_default message ''Nilai harus berupa boolean.'') [Change] w
         else (True, w))"

subsection \<open>Text validation\<close>

definition minLength :: "ref \<Rightarrow> int \<Rightarrow> string \<Rightarrow> state \<Rightarrow> bool \<times> state" where
  "minLength element len message w0 =
     (let w = setErrorMessage element '''' w0 in
      if is_sel element [InputText, InputEmail, InputPassword, Textarea] w
         \<and> int (length (val element w)) < len
      then invalid element
             (or_default message (''Minimal '' @ show_int len @ '' karakter.'')) [Keyup] w
      else (True, w))"

definition maxLength :: "ref \<Rightarrow> int \<Rightarrow> string \<Rightarrow> state \<Rightarrow> bool \<times> state" where
  "maxLength element len message w0 =
     (let w = setErrorMessage element '''' w0 in
      if is_sel element [InputText, InputEmail, InputPassword, Textarea] w
         \<and> int (length (val element w)) > len
      then invalid element
             (or_default message (''Maksimal '' @ show_int len @ '' karakter.'')) [Keyup] w
      else (True, w))"

definition alphabeticRegex :: rx where
  "alphabeticRegex =
     RStar (RCls (\<lambda>c. is_alpha c \<or> c = CHR ''.'' \<or> c = CHR '','' \<or> is_space c))"

definition alphabetic :: "ref \<Rightarrow> string \<Rightarrow> state \<Rightarrow> bool \<times> state" where
  "alphabetic element message w0 =
     (let w = setErrorMessage element '''' w0 in
      if \<not> is_sel element [InputText, Textarea] w
         \<or> \<not> rx_test alphabeticRegex (val element w)
      then invalid element (or_default message ''Tidak boleh mengandung angka.'')
             [Keyup, Change] w
      else (True, w))"

definition alphanumericRegex :: rx where
  "alphanumericRegex = RPlus (RCls (\<lambda>c. is_alpha c \<or> is_digit c \<or> is_space c))"

definition alphanumeric :: "ref \<Rightarrow> string \<Rightarrow> state \<Rightarrow> bool \<times> state" where
  "alphanumeric element message w0 =
     (let w = setErrorMessage element '''' w0 in
      if is_sel element [InputText, Textarea] w
         \<and> \<not> rx_test alphanumericRegex (val element w)
      then invalid element (or_default message ''Hanya boleh mengandung huruf dan angka.'')
             [Keyup, Change] w
      else (True, w))"

text \<open>
  The caller's \<open>regex\<close> and \<open>validatorFunction\<close> are given by what \<open>regex.test\<close> and the
  function answer on a string.
\<close>

definition pattern :: "ref \<Rightarrow> (string \<Rightarrow> bool) \<Rightarrow> string \<Rightarrow> state \<Rightarrow> bool \<times> state" where
  "pattern element regex message w0 =
     (let w = setErrorMessage element '''' w0 in
      if is_sel element [InputText, Textarea] w \<and> \<not> regex (val element w)
      then invalid element (or_default message ''Format input tidak sesuai.'')
             [Keyup, Change] w
      else (True, w))"

definition custom :: "ref \<Rightarrow> (string \<Rightarrow> bool) \<Rightarrow> string \<Rightarrow> state \<Rightarrow> bool \<times> state" where
  "custom element validatorFunction message w0 =
     (let w = setErrorMessage element '''' w0 in
      if \<not> validatorFunction (val element w)
      then invalid element (or_default message ''Input tidak valid.'') [Keyup, Change] w
      else (True, w))"

subsection \<open>Numeric validation\<close>

text \<open>The bounds are numbers with an integer value.\<close>

definition numericRegex :: rx where
  "numericRegex = RPlus (RCls is_digit)"

definition numeric :: "ref \<Rightarrow> string \<Rightarrow> state \<Rightarrow> bool \<times> state" where
  "numeric element message w0 =
     (let w = setErrorMessage element '''' w0 in
      if is_sel element [InputText, InputNumber, Textarea] w
         \<and> \<not> rx_test numericRegex (val element w)
      then invalid element (or_default message ''Hanya boleh mengandung angka.'')
             [Keyup, Change] w
      else (True, w))"

definition minValue :: "ref \<Rightarrow> int \<Rightarrow> string \<Rightarrow> state \<Rightarrow> bool \<times> state" where
  "minValue element minVal message w0 =
     (let w = setErrorMessage element '''' w0;
          v = parseFloat (val element w)
      in if is_sel element [InputNumber, InputText] w \<and> js_lt v (Num (of_int minVal))
         then invalid element
                (or_default message (''Nilai minimal adalah '' @ show_int minVal @ ''.''))
                [Keyup, Change] w
         else (True, w))"

definition maxValue :: "ref \<Rightarrow> int \<Rightarrow> string \<Rightarrow> state \<Rightarrow> bool \<times> state" where
  "maxValue element maxVal message w0 =
     (let w = setErrorMessage element '''' w0;
          v = parseFloat (val element w)
      in if is_sel element [InputNumber, InputText] w \<and> js_gt v (Num (of_int maxVal))
         then invalid element
                (or_default message (''Nilai maksimal adalah '' @ show_int maxVal @ ''.''))
                [Keyup, Change] w
         else (True, w))"

definition range_check :: "ref \<Rightarrow> int \<Rightarrow> int \<Rightarrow> string \<Rightarrow> state \<Rightarrow> bool \<times> state" where
  "range_check element minVal maxVal message w0 =
     (let w = setErrorMessage element '''' w0;
          v = parseFloat (val element w)
      in if is_sel element [InputNumber, InputText] w
            \<and> (js_lt v (Num (of_int minVal)) \<or> js_gt v (Num (of_int maxVal)))
         then invalid element
                (or_default message (''Nilai harus antara '' @ show_int minVal @ '' dan ''
                                      @ show_int maxVal @ ''.''))
                [Keyup, Change] w
         else (True, w))"

subsection \<open>File validation\<close>

definition fileType :: "ref \<Rightarrow> string list \<Rightarrow> string \<Rightarrow> state \<Rightarrow> bool \<times> state" where
  "fileType element allowedTypes message w0 =
     (let w = setErrorMessage element '''' w0 in
      if is_sel element [InputFile] w \<and> length (el_files (page w element)) > 0
      then (let file = hd (el_files (page w element)) in
            if f_type file \<notin> set allowedTypes
            then invalid element (or_default message ''Format berkas tidak sesuai.'') [Change] w
            else (True, w))
      else (True, w))"

definition fileSize :: "ref \<Rightarrow> nat \<Rightarrow> string \<Rightarrow> state \<Rightarrow> bool \<times> state" where
  "fileSize element maxSize message w0 =
     (let w = setErrorMessage element '''' w0 in
      if is_sel element [InputFile] w \<and> length (el_files (page w element)) > 0
      then (let file = hd (el_files (page w element)) in
            if f_size file > maxSize
            then (let maxSizeInMB = toFixed2 maxSize (1024 * 1024);
                      errorMessage = or_default message
                        (''Ukuran file tidak boleh lebih dari '' @ maxSizeInMB @ '' MB.'')
                  in invalid element errorMessage [Change] w)
            else (True, w))
      else (True, w))"

definition fileExtension :: "ref \<Rightarrow> string list \<Rightarrow> string \<Rightarrow> state \<Rightarrow> bool \<times> state" where
  "fileExtension element allowedExtensions message w0 =
     (let w = setErrorMessage element '''' w0 in
      if is_sel element [InputFile] w \<and> length (el_files (page w element)) > 0
      then (let file = hd (el_files (page w element));
                fileExtension = toLowerCase (last (js_split CHR ''.'' (f_name file)))
            in if fileExtension \<notin> set allowedExtensions
               then invalid element (or_default message ''Ekstensi file tidak diizinkan.'')
                      [Change] w
               else (True, w))
      else (True, w))"

subsection \<open>Date and time validation\<close>

text \<open>
  \<open>moment.js\<close> is not part of the repository; the checks take it as a parameter.
  \<open>mt_parse v f\<close> is \<open>moment(v, f, true)\<close>, \<open>mt_isBetween a s e\<close> is
  \<open>a.isBetween(s, e, null, '[]')\<close>, and \<open>mt_format m f\<close> is \<open>m.format(f)\<close>.
\<close>

record 'm moment_api =
  mt_parse :: "string \<Rightarrow> string \<Rightarrow> 'm"
  mt_isValid :: "'m \<Rightarrow> bool"
  mt_isBefore :: "'m \<Rightarrow> 'm \<Rightarrow> bool"
  mt_isAfter :: "'m \<Rightarrow> 'm \<Rightarrow> bool"
  mt_isBetween :: "'m \<Rightarrow> 'm \<Rightarrow> 'm \<Rightarrow> bool"
  mt_format :: "'m \<Rightarrow> string \<Rightarrow> string"

definition date :: "'m moment_api \<Rightarrow> ref \<Rightarrow> string \<Rightarrow> string \<Rightarrow> state \<Rightarrow> bool \<times> state" where
  "date M element format message w0 =
     (let w = setErrorMessage element '''' w0;
          dateValue = val element w;
          isValidDate = mt_isValid M (mt_parse M dateValue format)
      in if is_sel element [InputText, InputDate] w \<and> \<not> isValidDate
         then invalid element
                (or_default message (''Tanggal tidak sesuai format '' @ format @ ''.''))
                [Keyup, Change] w
         else (True, w))"

definition datetime :: "'m moment_api \<Rightarrow> ref \<Rightarrow> string \<Rightarrow> string \<Rightarrow> state \<Rightarrow> bool \<times> state" where
  "datetime M element format message w0 =
     (let w = setErrorMessage element '''' w0;
          datetimeValue = val element w;
          isValidDatetime = mt_isValid M (mt_parse M datetimeValue format)
      in if is_sel element [InputText, InputDatetimeLocal] w \<and> \<not> isValidDatetime
         then invalid element
                (or_default message
                   (''Format tanggal dan waktu tidak sesuai ('' @ format @ '').''))
                [Keyup, Change] w
         else (True, w))"

definition time :: "'m moment_api \<Rightarrow> ref \<Rightarrow> string \<Rightarrow> string \<Rightarrow> state \<Rightarrow> bool \<times> state" where
  "time M element format message w0 =
     (let w = setErrorMessage element '''' w0;
          timeValue = val element w;
          isValidTime = mt_isValid M (mt_parse M timeValue format)
      in if is_sel element [InputText, InputTime] w \<and> \<not> isValidTime
         then invalid element
                (or_default message (''Format waktu tidak sesuai ('' @ format @ '').''))
                [Keyup, Change] w
         else (True, w))"

definition minDate ::
  "'m moment_api \<Rightarrow> ref \<Rightarrow> string \<Rightarrow> string \<Rightarrow> string \<Rightarrow> state \<Rightarrow> bool \<times> state" where
  "minDate M element minD format message w0 =
     (let w = setErrorMessage element '''' w0;
          dateValue = mt_parse M (val element w) format;
          mn = mt_parse M minD format
      in if is_sel element [InputText, InputDate] w
            \<and> (\<not> mt_isValid M dateValue \<or> mt_isBefore M dateValue mn)
         then (let errorMessage = or_default message
                     (''Tanggal tidak boleh sebelum '' @ mt_format M mn format @ ''.'')
               in invalid element errorMessage [Keyup, Change] w)
         else (True, w))"

definition maxDate ::
  "'m moment_api \<Rightarrow> ref \<Rightarrow> string \<Rightarrow> string \<Rightarrow> string \<Rightarrow> state \<Rightarrow> bool \<times> state" where
  "maxDate M element maxD format message w0 =
     (let w = setErrorMessage element '''' w0;
          dateValue = mt_parse M (val element w) format;
          mx = mt_parse M maxD format
      in if is_sel element [InputText, InputDate] w
            \<and> (\<not> mt_isValid M dateValue \<or> mt_isAfter M dateValue mx)
         then (let errorMessage = or_default message
                     (''Tanggal tidak boleh setelah '' @ mt_format M mx format @ ''.'')
               in invalid element errorMessage [Keyup, Change] w)
         else (True, w))"

definition minDatetime ::
  "'m moment_api \<Rightarrow> ref \<Rightarrow> string \<Rightarrow> string \<Rightarrow> string \<Rightarrow> state \<Rightarrow> bool \<times> state" where
  "minDatetime M element minD format message w0 =
     (let w = setErrorMessage element '''' w0;
          datetimeValue = mt_parse M (val element w) format;
          mn = mt_parse M minD format
      in if is_sel element [InputText, InputDatetimeLocal] w
            \<and> (\<not> mt_isValid M datetimeValue \<or> mt_isBefore M datetimeValue mn)
         then (let errorMessage = or_default message
                     (''Tanggal dan waktu tidak boleh sebelum '' @ mt_format M mn format @ ''.'')
               in invalid element errorMessage [Keyup, Change] w)
         else (True, w))"

definition maxDatetime ::
  "'m moment_api \<Rightarrow> ref \<Rightarrow> string \<Rightarrow> string \<Rightarrow> string \<Rightarrow> state \<Rightarrow> bool \<times> state" where
  "maxDatetime M element maxD format message w0 =
     (let w = setErrorMessage element '''' w0;
          datetimeValue = mt_parse M (val element w) format;
          mx = mt_parse M maxD format
      in if is_sel element [InputText, InputDatetimeLocal] w
            \<and> (\<not> mt_isValid M datetimeValue \<or> mt_isAfter M datetimeValue mx)
         then (let errorMessage = or_default message
                     (''Tanggal dan waktu tidak boleh setelah '' @ mt_format M mx format @ ''.'')
               in invalid element errorMessage [Keyup, Change] w)
         else (True, w))"

definition dateBetween ::
  "'m moment_api \<Rightarrow> ref \<Rightarrow> string \<Rightarrow> string \<Rightarrow> string \<Rightarrow> string \<Rightarrow> state \<Rightarrow> bool \<times> state"
  where
  "dateBetween M element startDate endDate format message w0 =
     (let w = setErrorMessage element '''' w0;
          dateValue = mt_parse M (val element w) format;
          start = mt_parse M startDate format;
          end = mt_parse M endDate format
      in if is_sel element [InputText, InputDate] w
            \<and> (\<not> mt_isValid M dateValue \<or> \<not> mt_isBetween M dateValue start end)
         then (let errorMessage = or_default message
                     (''Tanggal harus antara '' @ mt_format M start format @ '' dan ''
                        @ mt_format M end format @ ''.'')
               in invalid element errorMessage [Keyup, Change] w)
         else (True, w))"

definition datetimeBetween ::
  "'m moment_api \<Rightarrow> ref \<Rightarrow> string \<Rightarrow> string \<Rightarrow> string \<Rightarrow> string \<Rightarrow> state \<Rightarrow> bool \<times> state"
  where
  "datetimeBetween M element startDatetime endDatetime format message w0 =
     (let w = setErrorMessage element '''' w0;
          datetimeValue = mt_parse M (val element w) format;
          start = mt_parse M startDatetime format;
          end = mt_parse M endDatetime format
      in if is_sel element [InputText, InputDatetimeLocal] w
            \<and> (\<not> mt_isValid M datetimeValue \<or> \<not> mt_isBetween M datetimeValue start end)
         then (let errorMessage = or_default message
                     (''Tanggal dan waktu harus antara '' @ mt_format M start format @ '' dan ''
                        @ mt_format M end format @ ''.'')
               in invalid element errorMessage [Keyup, Change] w)
         else (True, w))"

subsection \<open>Format validation\<close>

definition emailRegex :: rx where
  "emailRegex =
     (let c = RCls (\<lambda>c. \<not> is_space c \<and> c \<noteq> CHR ''@'')
      in RSeq (RPlus c) (RSeq (RLit ''@'') (RSeq (RPlus c) (RSeq (RLit ''.'') (RPlus c)))))"

definition email :: "ref \<Rightarrow> string \<Rightarrow> state \<Rightarrow> bool \<times> state" where
  "email element message w0 =
     (let w = setErrorMessage element '''' w0 in
      if is_sel element [InputText, InputEmail] w \<and> \<not> rx_test emailRegex (val element w)
      then invalid element (or_default message ''Email tidak sesuai format'') [Keyup] w
      else (True, w))"

definition urlRegex :: rx where
  "urlRegex =
     (let c = RCls (\<lambda>c. is_word c \<or> c = CHR ''-'')
      in RSeq (ROpt (RSeq (RLit ''http'') (RSeq (ROpt (RLit ''s'')) (RLit ''://''))))
           (RSeq (RPlus (RSeq (RPlus c) (RLit ''.'')))
              (RSeq (RPlus c) (RStar (RSeq (RLit ''/'') (RStar c))))))"

definition url :: "ref \<Rightarrow> string \<Rightarrow> state \<Rightarrow> bool \<times> state" where
  "url element message w0 =
     (let w = setErrorMessage element '''' w0 in
      if is_sel element [InputText, InputUrl] w \<and> \<not> rx_test urlRegex (val element w)
      then invalid element (or_default message ''URL tidak sesuai format.'') [Keyup, Change] w
      else (True, w))"

definition phoneRegex :: rx where
  "phoneRegex =
     RPlus (RCls (\<lambda>c. is_digit c \<or> c = CHR ''+'' \<or> is_space c \<or> c = CHR ''(''
                        \<or> c = CHR '')'' \<or> c = CHR ''-''))"

definition phoneNumber :: "ref \<Rightarrow> string \<Rightarrow> state \<Rightarrow> bool \<times> state" where
  "phoneNumber element message w0 =
     (let w = setErrorMessage element '''' w0 in
      if is_sel element [InputText, InputTel] w \<and> \<not> rx_test phoneRegex (val element w)
      then invalid element (or_default message ''Nomor telepon tidak valid.'')
             [Keyup, Change] w
      else (True, w))"

subsection \<open>Asynchronous validation\<close>

text \<open>
  The promise returned by \<open>asyncValidatorFunction\<close> either fulfils with a boolean or
  rejects.  \<open>asyncValidation_call\<close> is the part of the method before the \<open>await\<close>: it
  yields the argument handed to the predicate.  \<open>asyncValidation_resume\<close> is the part after
  it, run on the state in which the method is resumed; its first component is how the
  promise returned by \<open>asyncValidation\<close> settles.  \<open>asyncValidation\<close> runs the two with
  nothing in between.
\<close>

datatype 'a settled = Fulfilled 'a | Rejected

definition asyncValidation_call :: "ref \<Rightarrow> state \<Rightarrow> string \<times> state" where
  "asyncValidation_call element w0 =
     (let w = setErrorMessage element '''' w0 in (val element w, w))"

definition asyncValidation_resume ::
  "ref \<Rightarrow> string \<Rightarrow> bool settled \<Rightarrow> state \<Rightarrow> bool settled \<times> state" where
  "asyncValidation_resume element message outcome w =
     (case outcome of
        Fulfilled isValid \<Rightarrow>
          if \<not> isValid
          then (let (r, w') = invalid element (or_default message ''Input tidak valid.'')
                                [Keyup, Change] w
                in (Fulfilled r, w'))
          else (Fulfilled True, w)
      | Rejected \<Rightarrow>
          (Fulfilled False,
           setErrorMessage element ''Terjadi kesalahan saat validasi.''
             (w\<lparr>errors := errors w + 1\<rparr>)))"

definition asyncValidation ::
  "ref \<Rightarrow> (string \<Rightarrow> bool settled) \<Rightarrow> string \<Rightarrow> state \<Rightarrow> bool settled \<times> state" where
  "asyncValidation element asyncValidatorFunction message w0 =
     (let (v, w) = asyncValidation_call element w0
      in asyncValidation_resume element message (asyncValidatorFunction v) w)"

subsection \<open>\<open>throwErrorMessage\<close>\<close>

definition throwErrorMessage :: "string \<Rightarrow> state \<Rightarrow> (exn + unit) \<times> state" where
  "throwErrorMessage message w =
     (if errors w \<ge> 1
      then (Inl (Error message), w\<lparr>console := console w @ [errorMessages w]\<rparr>)
      else (Inr (), w))"

subsection \<open>\<open>validateFields\<close>\<close>

text \<open>
  An entry \<open>{ method, args }\<close> of the array given to \<open>validateFields\<close> names one of the
  synchronous checks with its arguments, the message included (\<open>''''\<close> when the caller
  leaves it out).  \<open>call\<close> is \<open>this[method](...args)\<close>.
\<close>

datatype validation =
    V_required ref string
  | V_requiredIf ref ref string string
  | V_equalTo ref ref string
  | V_boolean ref string
  | V_minLength ref int string
  | V_maxLength ref int string
  | V_alphabetic ref string
  | V_alphanumeric ref string
  | V_pattern ref "string \<Rightarrow> bool" string
  | V_custom ref "string \<Rightarrow> bool" string
  | V_numeric ref string
  | V_minValue ref int string
  | V_maxValue ref int string
  | V_range ref int int string
  | V_fileType ref "string list" string
  | V_fileSize ref nat string
  | V_fileExtension ref "string list" string
  | V_date ref string string
  | V_datetime ref string string
  | V_time ref string string
  | V_minDate ref string string string
  | V_maxDate ref string string string
  | V_minDatetime ref string string string
  | V_maxDatetime ref string string string
  | V_dateBetween ref string string string string
  | V_datetimeBetween ref string string string string
  | V_email ref string
  | V_url ref string
  | V_phoneNumber ref string

fun call :: "'m moment_api \<Rightarrow> validation \<Rightarrow> state \<Rightarrow> bool \<times> state" where
  "call M (V_required e m) w = required e m w"
| "call M (V_requiredIf e e2 x m) w = requiredIf e e2 x m w"
| "call M (V_equalTo e t m) w = equalTo e t m w"
| "call M (V_boolean e m) w = boolean e m w"
| "call M (V_minLength e n m) w = minLength e n m w"
| "call M (V_maxLength e n m) w = maxLength e n m w"
| "call M (V_alphabetic e m) w = alphabetic e m w"
| "call M (V_alphanumeric e m) w = alphanumeric e m w"
| "call M (V_pattern e r m) w = pattern e r m w"
| "call M (V_custom e f m) w = custom e f m w"
| "call M (V_numeric e m) w = numeric e m w"
| "call M (V_minValue e n m) w = minValue e n m w"
| "call M (V_maxValue e n m) w = maxValue e n m w"
| "call M (V_range e lo hi m) w = range_check e lo hi m w"
| "call M (V_fileType e ts m) w = fileType e ts m w"
| "call M (V_fileSize e n m) w = fileSize e n m w"
| "call M (V_fileExtension e xs m) w = fileExtension e xs m w"
| "call M (V_date e f m) w = date M e f m w"
| "call M (V_datetime e f m) w = datetime M e f m w"
| "call M (V_time e f m) w = time M e f m w"
| "call M (V_minDate e d f m) w = minDate M e d f m w"
| "call M (V_maxDate e d f m) w = maxDate M e d f m w"
| "call M (V_minDatetime e d f m) w = minDatetime M e d f m w"
| "call M (V_maxDatetime e d f m) w = maxDatetime M e d f m w"
| "call M (V_dateBetween e a b f m) w = dateBetween M e a b f m w"
| "call M (V_datetimeBetween e a b f m) w = datetimeBetween M e a b f m w"
| "call M (V_email e m) w = email e m w"
| "call M (V_url e m) w = url e m w"
| "call M (V_phoneNumber e m) w = phoneNumber e m w"

text \<open>
  \<open>forEach\<close> runs the checks in the order of the array and drops what they return;
  \<open>results\<close> keeps those return values, in the same order, for the statements below.
\<close>

fun forEach :: "'m moment_api \<Rightarrow> validation list \<Rightarrow> state \<Rightarrow> state" where
  "forEach M [] w = w"
| "forEach M (v # vs) w = forEach M vs (snd (call M v w))"

fun results :: "'m moment_api \<Rightarrow> validation list \<Rightarrow> state \<Rightarrow> bool list" where
  "results M [] w = []"
| "results M (v # vs) w = fst (call M v w) # results M vs (snd (call M v w))"

definition validateFields ::
  "'m moment_api \<Rightarrow> validation list \<Rightarrow> state \<Rightarrow> (exn + unit) \<times> state" where
  "validateFields M validations w =
     throwErrorMessage ''Masih ada form yang belum diisi atau salah.''
       (forEach M validations w)"

subsection \<open>Events on the page\<close>

text \<open>
  \<open>trigger\<close> delivers an event to a field: the handlers registered for it run in the order
  of their registration, each being \<open>() => this.#setErrorMessage(element)\<close>.
  \<open>set_val\<close> is the user giving the field a new value, and \<open>user_edit\<close> a change of the
  value followed by the event it raises.
\<close>

definition trigger :: "ref \<Rightarrow> event \<Rightarrow> state \<Rightarrow> state" where
  "trigger element ev w =
     foldl (\<lambda>w evs. if ev \<in> set evs then setErrorMessage element '''' w else w) w
       (el_listeners (page w element))"

definition set_val :: "ref \<Rightarrow> string \<Rightarrow> state \<Rightarrow> state" where
  "set_val element v w = w\<lparr>page := (page w)(element := (page w element)\<lparr>el_val := v\<rparr>)\<rparr>"

definition user_edit :: "ref \<Rightarrow> string \<Rightarrow> event \<Rightarrow> state \<Rightarrow> state" where
  "user_edit element v ev w = trigger element ev (set_val element v w)"

subsection \<open>Sequences of operations on one validator\<close>

text \<open>
  Everything that can happen to a \<open>Validator\<close> instance and the page it works on: a
  synchronous check, the two halves of \<open>asyncValidation\<close> (separately, so that other
  operations may come between them) or both at once, \<open>validateFields\<close>,
  \<open>throwErrorMessage\<close>, an event delivered to a field, and the user changing a value.
  An exception thrown by \<open>throwErrorMessage\<close> or \<open>validateFields\<close> is taken to be caught by
  the caller, who goes on using the instance.
\<close>

datatype operation =
    Check validation
  | AsyncCall ref
  | AsyncResume ref string "bool settled"
  | Async ref "string \<Rightarrow> bool settled" string
  | Batch "validation list"
  | Throw string
  | Fire ref event
  | Edit ref string

fun step :: "'m moment_api \<Rightarrow> operation \<Rightarrow> state \<Rightarrow> state" where
  "step M (Check v) w = snd (call M v w)"
| "step M (AsyncCall e) w = snd (asyncValidation_call e w)"
| "step M (AsyncResume e m out) w = snd (asyncValidation_resume e m out w)"
| "step M (Async e f m) w = snd (asyncValidation e f m w)"
| "step M (Batch vs) w = snd (validateFields M vs w)"
| "step M (Throw m) w = snd (throwErrorMessage m w)"
| "step M (Fire e ev) w = trigger e ev w"
| "step M (Edit e v) w = set_val e v w"

fun run :: "'m moment_api \<Rightarrow> operation list \<Rightarrow> state \<Rightarrow> state" where
  "run M [] w = w"
| "run M (x # xs) w = run M xs (step M x w)"

subsection \<open>Notions used in the statements\<close>

text \<open>The field that a check is applied to: the first argument of the method.\<close>

fun target :: "validation \<Rightarrow> ref" where
  "target (V_required e m) = e"
| "target (V_requiredIf e e2 x m) = e"
| "target (V_equalTo e t m) = e"
| "target (V_boolean e m) = e"
| "target (V_minLength e n m) = e"
| "target (V_maxLength e n m) = e"
| "target (V_alphabetic e m) = e"
| "target (V_alphanumeric e m) = e"
| "target (V_pattern e r m) = e"
| "target (V_custom e f m) = e"
| "target (V_numeric e m) = e"
| "target (V_minValue e n m) = e"
| "target (V_maxValue e n m) = e"
| "target (V_range e lo hi m) = e"
| "target (V_fileType e ts m) = e"
| "target (V_fileSize e n m) = e"
| "target (V_fileExtension e xs m) = e"
| "target (V_date e f m) = e"
| "target (V_datetime e f m) = e"
| "target (V_time e f m) = e"
| "target (V_minDate e d f m) = e"
| "target (V_maxDate e d f m) = e"
| "target (V_minDatetime e d f m) = e"
| "target (V_maxDatetime e d f m) = e"
| "target (V_dateBetween e a b f m) = e"
| "target (V_datetimeBetween e a b f m) = e"
| "target (V_email e m) = e"
| "target (V_url e m) = e"
| "target (V_phoneNumber e m) = e"

text \<open>
  The two ways in which a synchronous check ends: it returns \<open>true\<close> after the clearing
  call of \<open>#setErrorMessage\<close> with which it began, or it goes through the failing branch
  with a message that is not empty and a registration for at least one event.
\<close>

definition check_shape :: "ref \<Rightarrow> state \<Rightarrow> bool \<times> state \<Rightarrow> bool" where
  "check_shape e w r =
     (r = (True, setErrorMessage e '''' w)
      \<or> (\<exists>msg evs. msg \<noteq> '''' \<and> evs \<noteq> []
            \<and> r = invalid e msg evs (setErrorMessage e '''' w)))"

text \<open>
  A check that was \<open>skipped\<close> returned \<open>true\<close> with the error count as before; one that
  \<open>failed\<close> returned \<open>false\<close> with the error count one higher.
\<close>

definition skipped :: "state \<Rightarrow> bool \<times> state \<Rightarrow> bool" where
  "skipped w r = (fst r = True \<and> errors (snd r) = errors w)"

definition failed :: "state \<Rightarrow> bool \<times> state \<Rightarrow> bool" where
  "failed w r = (fst r = False \<and> errors (snd r) = errors w + 1)"

text \<open>The entries that one call of \<open>#setErrorMessage\<close> with a message appends.\<close>

definition entries :: "element \<Rightarrow> string \<Rightarrow> error_entry list" where
  "entries e msg =
     (if el_kind e = Select then [(el_id e, msg)] else [])
     @ [(Some (CHR ''#'' # js_str (el_id e)), msg)]"

text \<open>
  The checks of a batch that returned \<open>false\<close>, in the order of the batch.
\<close>

definition failing :: "'m moment_api \<Rightarrow> validation list \<Rightarrow> state \<Rightarrow> validation list" where
  "failing M vs w = map fst (filter (\<lambda>(v, ok). \<not> ok) (zip vs (results M vs w)))"

subsection \<open>Fields for the concrete evaluations\<close>

definition field :: "string \<Rightarrow> kind \<Rightarrow> string \<Rightarrow> element" where
  "field i k v =
     \<lparr> el_id = Some i, el_kind = k, el_val = v, el_checked = None, el_files = [],
       el_invalid = False, el_select2_invalid = False, el_message = '''',
       el_listeners = [] \<rparr>"

text \<open>
  A form with a text input \<open>name\<close> (empty), a text input \<open>age\<close> holding \<open>17\<close>, a select
  \<open>city\<close> with the empty option chosen, and a \<open>div\<close>.
\<close>

definition form :: "ref \<Rightarrow> element" where
  "form r = (if r = 0 then field ''name'' InputText ''''
             else if r = 1 then field ''age'' InputText ''17''
             else if r = 2 then field ''city'' Select ''''
             else field ''box'' OtherElement ''x'')"

text \<open>A page whose fields are all the input \<open>age\<close>, of kind \<open>k\<close> and holding \<open>v\<close>.\<close>

definition age_form :: "kind \<Rightarrow> string \<Rightarrow> ref \<Rightarrow> element" where
  "age_form k v r = field ''age'' k v"

text \<open>
  On a new validator for \<open>form\<close>: \<open>required\<close> fails on the empty \<open>name\<close>
  (\<open>name_failed\<close>); the user types \<open>Ann\<close> (\<open>name_typed\<close>); \<open>required\<close> is run again
  (\<open>name_fixed\<close>).
\<close>

definition name_failed :: state where
  "name_failed = snd (required 0 '''' (constructor form []))"

definition name_typed :: state where
  "name_typed = user_edit 0 ''Ann'' Keyup name_failed"

definition name_fixed :: state where
  "name_fixed = snd (required 0 '''' name_typed)"

text \<open>
  On a new validator for \<open>form\<close>: \<open>range\<close> with the bounds 18 and 99 fails on \<open>age\<close>
  (\<open>age_failed\<close>); the user changes the value to \<open>16\<close> (\<open>age_edited\<close>).
\<close>

definition age_failed :: state where
  "age_failed = snd (range_check 1 18 99 '''' (constructor form []))"

definition age_edited :: state where
  "age_edited = user_edit 1 ''16'' Change age_failed"

text \<open>A predicate for \<open>asyncValidation\<close> whose promise always rejects.\<close>

definition rejecting :: "string \<Rightarrow> bool settled" where
  "rejecting v = Rejected"

definition no_moment :: "unit moment_api" where
  "no_moment =
     \<lparr> mt_parse = (\<lambda>v f. ()), mt_isValid = (\<lambda>m. False), mt_isBefore = (\<lambda>a b. False),
       mt_isAfter = (\<lambda>a b. False), mt_isBetween = (\<lambda>a s e. False),
       mt_format = (\<lambda>m f. '''') \<rparr>"

section \<open>\<open>SAT.Format\<close> and \<open>SAT.Parse\<close>\<close>

subsection \<open>\<open>SAT.Format.ToDate\<close>\<close>

text \<open>The two keys of the table of month names; \<open>loc\<close> is the parameter \<open>locale\<close>.\<close>

datatype lang = Loc_id | Loc_en

definition months :: "lang \<Rightarrow> string list" where
  "months loc = (case loc of
       Loc_id \<Rightarrow> [''Januari'', ''Februari'', ''Maret'', ''April'', ''Mei'', ''Juni'',
                  ''Juli'', ''Agustus'', ''September'', ''Oktober'', ''November'', ''Desember'']
     | Loc_en \<Rightarrow> [''January'', ''February'', ''March'', ''April'', ''May'', ''June'',
                  ''July'', ''August'', ''September'', ''October'', ''November'', ''December''])"

text \<open>
  \<open>months[loc][parseInt(month) - 1]\<close>: \<open>None\<close> is \<open>undefined\<close>, the value of an index
  that is \<open>NaN\<close> or outside the array.
\<close>

definition getMonthName :: "string option \<Rightarrow> lang \<Rightarrow> string option" where
  "getMonthName month loc =
     (case parseInt (js_str month) of
        None \<Rightarrow> None
      | Some n \<Rightarrow> if 0 \<le> n - 1 \<and> n - 1 < int (length (months loc))
                  then Some (months loc ! nat (n - 1)) else None)"

definition Format_ToDate :: "string \<Rightarrow> lang \<Rightarrow> string" where
  "Format_ToDate date_s loc =
     (let parts = js_split CHR ''-'' date_s;
          year = nth_opt parts 0;
          month = nth_opt parts 1;
          day = nth_opt parts 2
      in show_number (parseInt (js_str day)) @ '' '' @ js_str (getMonthName month loc)
           @ '' '' @ js_str year)"

subsection \<open>The pattern of \<open>SAT.Parse.ToDate\<close>\<close>

text \<open>
  \<open>match\<close> returns the first match that backtracking finds, and the capture groups depend
  on which one that is.  \<open>paths\<close> lists, in the order in which backtracking tries them, the
  ways in which a pattern can match a prefix of the input (the rest of the input with the
  captures made); the first path is the match.  \<open>Rep p lo hi\<close> is a greedy repetition of a
  character class, \<open>Maybe\<close> a greedy \<open>?\<close>, \<open>Group\<close> a capture group.
\<close>

datatype pat =
    Rep "char \<Rightarrow> bool" nat "nat option"
  | Cat pat pat
  | Maybe pat
  | Group nat pat

type_synonym captures = "(nat \<times> string) list"

fun paths :: "pat \<Rightarrow> string \<times> captures \<Rightarrow> (string \<times> captures) list" where
  "paths (Rep p lo hi) (s, cs) =
     (let n = length (takeWhile p s);
          m = (case hi of None \<Rightarrow> n | Some h \<Rightarrow> min h n)
      in map (\<lambda>k. (drop k s, cs)) (rev [lo ..< Suc m]))"
| "paths (Cat a b) st = concat (map (paths b) (paths a st))"
| "paths (Maybe a) st = paths a st @ [st]"
| "paths (Group i a) (s, cs) =
     map (\<lambda>(s', cs'). (s', (i, take (length s - length s') s) # cs')) (paths a (s, cs))"

definition match_start :: "pat \<Rightarrow> string \<Rightarrow> captures option" where
  "match_start r s = (case paths r (s, []) of [] \<Rightarrow> None | (rest, cs) # _ \<Rightarrow> Some cs)"

definition capture :: "captures \<Rightarrow> nat \<Rightarrow> string" where
  "capture cs i = (case map_of cs i of Some t \<Rightarrow> t | None \<Rightarrow> [])"

text \<open>\<open>/^(?:\w+,?\s*)?(\d{1,2})\s+(\w+)\s+(\d{4})/i\<close>\<close>

definition datePattern :: pat where
  "datePattern =
     Cat (Maybe (Cat (Rep is_word 1 None)
                  (Cat (Rep (\<lambda>c. c = CHR '','') 0 (Some 1)) (Rep is_space 0 None))))
       (Cat (Group 1 (Rep is_digit 1 (Some 2)))
         (Cat (Rep is_space 1 None)
           (Cat (Group 2 (Rep is_word 1 None))
             (Cat (Rep is_space 1 None)
               (Group 3 (Rep is_digit 4 (Some 4)))))))"

subsection \<open>\<open>SAT.Parse.ToDate\<close>\<close>

fun indexOf_from :: "nat \<Rightarrow> 'a list \<Rightarrow> 'a \<Rightarrow> int" where
  "indexOf_from i [] x = - 1"
| "indexOf_from i (y # ys) x = (if y = x then int i else indexOf_from (Suc i) ys x)"

definition getMonthNumber :: "string \<Rightarrow> int" where
  "getMonthNumber monthName =
     (let months = [''januari'', ''februari'', ''maret'', ''april'', ''mei'', ''juni'',
                    ''juli'', ''agustus'', ''september'', ''oktober'', ''november'',
                    ''desember''];
          index = indexOf_from 0 months (toLowerCase monthName)
      in if index \<noteq> - 1 then index + 1 else - 1)"

text \<open>\<open>_padZero\<close> on the string that \<open>num.toString()\<close> gives.\<close>

definition padZero :: "string \<Rightarrow> string" where
  "padZero num = padStart2 num"

definition Parse_ToDate :: "string \<Rightarrow> exn + string" where
  "Parse_ToDate dateString =
     (case match_start datePattern dateString of
        None \<Rightarrow> Inl (Error ''Format tanggal tidak dikenali.'')
      | Some m \<Rightarrow>
          (let day = capture m 1; monthName = capture m 2; year = capture m 3;
               month = getMonthNumber monthName
           in if month = - 1 then Inl (Error ''Nama bulan tidak valid.'')
              else Inr (year @ ''-'' @ padZero (show_int month) @ ''-'' @ padZero day)))"

subsection \<open>Dates in the form \<open>YYYY-MM-DD\<close>\<close>

text \<open>The string for the year digits \<open>Y\<close>, the month \<open>m\<close> and the day \<open>d\<close>.\<close>

definition iso_date :: "string \<Rightarrow> nat \<Rightarrow> nat \<Rightarrow> string" where
  "iso_date Y m d = Y @ ''-'' @ padStart2 (show_nat m) @ ''-'' @ padStart2 (show_nat d)"

section \<open>Basic facts about the state operations\<close>

lemma errors_setErrorMessage [simp]: "errors (setErrorMessage element message w) = errors w"
  by (simp add: setErrorMessage_def Let_def)

lemma errors_on [simp]: "errors (on element events w) = errors w"
  by (simp add: on_def)

lemma errors_invalid [simp]: "errors (snd (invalid element msg events w)) = errors w + 1"
  by (simp add: invalid_def)

lemma fst_invalid [simp]: "fst (invalid element msg events w) = False"
  by (simp add: invalid_def)

lemma kind_setErrorMessage [simp]:
  "el_kind (page (setErrorMessage element message w) r) = el_kind (page w r)"
  by (simp add: setErrorMessage_def Let_def)

lemma val_setErrorMessage [simp]:
  "el_val (page (setErrorMessage element message w) r) = el_val (page w r)"
  by (simp add: setErrorMessage_def Let_def)

lemma is_sel_setErrorMessage [simp]:
  "is_sel r sel (setErrorMessage element message w) = is_sel r sel w"
  by (simp add: is_sel_def)

lemma setErrorMessage_idem [simp]:
  "setErrorMessage e [] (setErrorMessage e [] w) = setErrorMessage e [] w"
  by (simp add: setErrorMessage_def Let_def)

lemma errorMessages_clear [simp]: "errorMessages (setErrorMessage e [] w) = errorMessages w"
  by (simp add: setErrorMessage_def Let_def)

lemma errorMessages_set:
  "msg \<noteq> [] \<Longrightarrow> errorMessages (setErrorMessage e msg w) = errorMessages w @ entries (page w e) msg"
  by (simp add: setErrorMessage_def Let_def entries_def)

lemma flags_setErrorMessage [simp]:
  "el_invalid (page (setErrorMessage e msg w) e) = (msg \<noteq> [])"
  "el_message (page (setErrorMessage e msg w) e) = msg"
  by (simp_all add: setErrorMessage_def Let_def)

lemma listeners_setErrorMessage [simp]:
  "el_listeners (page (setErrorMessage e msg w) r) = el_listeners (page w r)"
  by (simp add: setErrorMessage_def Let_def)

lemma id_setErrorMessage [simp]:
  "el_id (page (setErrorMessage e msg w) r) = el_id (page w r)"
  by (simp add: setErrorMessage_def Let_def)

lemma on_simps [simp]:
  "errorMessages (on e evs w) = errorMessages w"
  "el_invalid (page (on e evs w) r) = el_invalid (page w r)"
  "el_message (page (on e evs w) r) = el_message (page w r)"
  "el_listeners (page (on e evs w) e) = el_listeners (page w e) @ [evs]"
  by (simp_all add: on_def)

lemma or_default_nonempty: "d \<noteq> [] \<Longrightarrow> or_default m d \<noteq> []"
  by (simp add: or_default_def)

lemma shape_pass: "check_shape e w (True, setErrorMessage e [] w)"
  by (simp add: check_shape_def)

lemma shape_fail:
  "d \<noteq> [] \<Longrightarrow> evs \<noteq> [] \<Longrightarrow>
   check_shape e w (invalid e (or_default m d) evs (setErrorMessage e [] w))"
  unfolding check_shape_def using or_default_nonempty by blast

lemma shape_if:
  "check_shape e w a \<Longrightarrow> check_shape e w b \<Longrightarrow> check_shape e w (if c then a else b)"
  by simp

lemmas shape_intros = shape_if shape_pass shape_fail

lemmas check_defs =
  required_def requiredIf_def equalTo_def boolean_def minLength_def maxLength_def
  alphabetic_def alphanumeric_def pattern_def custom_def numeric_def minValue_def
  maxValue_def range_check_def fileType_def fileSize_def fileExtension_def date_def
  datetime_def time_def minDate_def maxDate_def minDatetime_def maxDatetime_def
  dateBetween_def datetimeBetween_def email_def url_def phoneNumber_def

lemma call_shape: "check_shape (target v) w (call M v w)"
  by (cases v; simp; unfold check_defs Let_def; intro shape_intros; simp)

lemma call_clear: "call M v (setErrorMessage (target v) [] w) = call M v w"
  by (cases v) (simp_all add: check_defs)

lemma shape_errors:
  "check_shape e w r \<Longrightarrow> errors (snd r) = errors w + (if fst r then 0 else 1)"
  by (auto simp: check_shape_def invalid_def)

lemma shape_pass_state: "check_shape e w r \<Longrightarrow> fst r \<Longrightarrow> snd r = setErrorMessage e [] w"
  by (auto simp: check_shape_def invalid_def)

lemma shape_fail_state:
  "check_shape e w r \<Longrightarrow> \<not> fst r \<Longrightarrow>
   \<exists>msg evs. msg \<noteq> [] \<and> evs \<noteq> [] \<and>
     snd r = on e evs (setErrorMessage e msg ((setErrorMessage e [] w)\<lparr>errors := errors w + 1\<rparr>))"
  unfolding check_shape_def invalid_def by auto blast

lemma call_errors: "errors (snd (call M v w)) = errors w + (if fst (call M v w) then 0 else 1)"
  using call_shape by (rule shape_errors)

lemma forEach_errors:
  "errors (forEach M vs w) = errors w + length (filter Not (results M vs w))"
  by (induction vs arbitrary: w) (simp_all add: call_errors)

lemma trigger_fold:
  "foldl (\<lambda>w evs. if ev \<in> set evs then setErrorMessage e [] w else w) w L =
     (if \<exists>evs \<in> set L. ev \<in> set evs then setErrorMessage e [] w else w)"
  by (induction L arbitrary: w) auto

lemma trigger_eq:
  "trigger e ev w =
     (if \<exists>evs \<in> set (el_listeners (page w e)). ev \<in> set evs then setErrorMessage e [] w else w)"
  unfolding trigger_def by (rule trigger_fold)

lemma set_val_simps [simp]:
  "errors (set_val e x w) = errors w"
  "errorMessages (set_val e x w) = errorMessages w"
  "el_listeners (page (set_val e x w) r) = el_listeners (page w r)"
  by (simp_all add: set_val_def)

lemma trigger_listened:
  assumes "evs \<in> set (el_listeners (page w e))" and "ev \<in> set evs"
  shows "trigger e ev w = setErrorMessage e [] w"
  using assms by (auto simp: trigger_eq)

lemma errors_trigger [simp]: "errors (trigger e ev w) = errors w"
  by (simp add: trigger_eq)

lemma step_errors: "errors w \<le> errors (step M x w)"
proof (cases x)
  case (Check v)
  then show ?thesis by (simp add: call_errors)
next
  case (AsyncResume e m out)
  then show ?thesis
    by (cases out) (simp_all add: asyncValidation_resume_def split_def Let_def)
next
  case (Async e f m)
  then show ?thesis
    by (cases "f (val e (setErrorMessage e [] w))")
      (simp_all add: asyncValidation_def asyncValidation_call_def asyncValidation_resume_def
        split_def Let_def)
next
  case (Batch vs)
  then show ?thesis by (simp add: validateFields_def throwErrorMessage_def forEach_errors)
qed (simp_all add: asyncValidation_call_def throwErrorMessage_def Let_def)

lemma run_errors: "errors w \<le> errors (run M xs w)"
proof (induction xs arbitrary: w)
  case Nil
  show ?case by simp
next
  case (Cons x xs)
  have "errors w \<le> errors (step M x w)" by (rule step_errors)
  also have "\<dots> \<le> errors (run M xs (step M x w))" by (rule Cons.IH)
  finally show ?case by simp
qed

lemma id_kind_on [simp]:
  "el_id (page (on e evs w) r) = el_id (page w r)"
  "el_kind (page (on e evs w) r) = el_kind (page w r)"
  by (simp_all add: on_def)

lemma shape_static:
  assumes "check_shape e w r"
  shows "el_id (page (snd r) x) = el_id (page w x)" "el_kind (page (snd r) x) = el_kind (page w x)"
  using assms by (auto simp: check_shape_def invalid_def)

lemma shape_entries:
  assumes "check_shape e w r"
  shows "\<exists>msg. errorMessages (snd r)
           = errorMessages w @ (if fst r then [] else entries (page w e) msg)"
  using assms by (auto simp: check_shape_def invalid_def errorMessages_set entries_def)

lemma failing_Cons:
  "failing M (v # vs) w =
     (if fst (call M v w) then [] else [v]) @ failing M vs (snd (call M v w))"
  by (simp add: failing_def)

section \<open>Basic facts about the date functions\<close>

lemma js_split_none: "c \<notin> set p \<Longrightarrow> js_split c p = [p]"
  by (induction p) auto

lemma js_split_app: "c \<notin> set p \<Longrightarrow> js_split c (p @ c # r) = p # js_split c r"
  by (induction p) (auto split: list.splits)

lemma dash_not_digit: "\<not> is_digit CHR ''-''"
  by (simp add: is_digit_def)

lemma digits_no_dash: "list_all is_digit Y \<Longrightarrow> CHR ''-'' \<notin> set Y"
  using dash_not_digit by (induction Y) auto

lemma two_digits:
  "\<forall>n \<in> set [1 ..< 32].
     CHR ''-'' \<notin> set (padStart2 (show_nat n))
     \<and> parseInt (padStart2 (show_nat n)) = Some (int n)"
  by code_simp

lemma two_digits':
  assumes "1 \<le> n" "n \<le> 31"
  shows "CHR ''-'' \<notin> set (padStart2 (show_nat n))"
    and "parseInt (padStart2 (show_nat n)) = Some (int n)"
  using two_digits assms by auto

lemma format_iso:
  assumes "list_all is_digit Y" "1 \<le> m" "m \<le> 12" "1 \<le> d" "d \<le> 31"
  shows "Format_ToDate (iso_date Y m d) Loc_id
           = show_nat d @ '' '' @ months Loc_id ! (m - 1) @ '' '' @ Y"
proof -
  have m31: "m \<le> 31" using assms by simp
  have sp: "js_split CHR ''-'' (iso_date Y m d) = [Y, padStart2 (show_nat m), padStart2 (show_nat d)]"
    using digits_no_dash [OF assms(1)] two_digits'(1) [OF assms(2) m31]
      two_digits'(1) [OF assms(4,5)]
    by (simp add: iso_date_def js_split_app js_split_none)
  have len: "length (months Loc_id) = 12" by (simp add: months_def)
  show ?thesis
    using assms two_digits'(2) [OF assms(2) m31] two_digits'(2) [OF assms(4,5)]
    by (simp add: Format_ToDate_def sp Let_def nth_opt_def js_str_def getMonthName_def len
        show_number_def show_int_def nat_diff_distrib' )
qed

lemma alpha_class:
  assumes "is_alpha c"
  shows "is_word c" "\<not> is_digit c" "\<not> is_space c" "c \<noteq> CHR '',''"
  using assms by (auto simp: is_alpha_def is_word_def is_digit_def is_space_def is_upper_def
      is_lower_def)

lemma digit_class:
  assumes "is_digit c"
  shows "is_word c" "\<not> is_space c" "c \<noteq> CHR '',''"
  using assms by (auto simp: is_word_def is_digit_def is_space_def)

lemma space_class:
  "is_space CHR '' ''" "\<not> is_word CHR '' ''" "\<not> is_digit CHR '' ''"
  by (simp_all add: is_space_def is_word_def is_alpha_def is_upper_def is_lower_def
      is_digit_def)

lemma takeWhile_all: "list_all p xs \<Longrightarrow> takeWhile p (xs @ r) = xs @ takeWhile p r"
  by (induction xs) auto

lemma takeWhile_all': "list_all p xs \<Longrightarrow> takeWhile p xs = xs"
  by (induction xs) auto

lemma takeWhile_none: "xs \<noteq> [] \<Longrightarrow> \<not> p (hd xs) \<Longrightarrow> takeWhile p (xs @ r) = []"
  by (cases xs) auto

lemma alpha_word: "list_all is_alpha N \<Longrightarrow> list_all is_word N"
  by (induction N) (auto simp: alpha_class)

lemma alpha_hd: "N \<noteq> [] \<Longrightarrow> list_all is_alpha N \<Longrightarrow> is_alpha (hd N)"
  by (cases N) auto

lemma match_day1:
  assumes c: "is_digit c" and N: "N \<noteq> []" "list_all is_alpha N"
    and Y: "list_all is_digit Y" "length Y = 4"
  shows "match_start datePattern (c # '' '' @ N @ '' '' @ Y) = Some [(3, Y), (2, N), (1, [c])]"
proof -
  note h = alpha_hd [OF N]
  have tw: "takeWhile is_word (N @ CHR '' '' # Y) = N"
    "takeWhile is_digit (N @ CHR '' '' # Y) = []"
    "takeWhile is_space (N @ CHR '' '' # Y) = []"
    "takeWhile is_digit Y = Y"
    using N Y h by (simp_all add: takeWhile_all alpha_word space_class takeWhile_none
        alpha_class takeWhile_all')
  have twY: "takeWhile is_space Y = []"
    using Y by (cases Y) (auto simp: digit_class)
  have n: "Suc 0 \<le> length N" using N by (cases N) simp_all
  show ?thesis
    using c n Y(2)
    by (simp add: match_start_def datePattern_def Let_def tw twY digit_class space_class)
qed

lemma match_day2:
  assumes c: "is_digit c1" "is_digit c2" and N: "N \<noteq> []" "list_all is_alpha N"
    and Y: "list_all is_digit Y" "length Y = 4"
  shows "match_start datePattern (c1 # c2 # '' '' @ N @ '' '' @ Y)
           = Some [(3, Y), (2, N), (1, [c2])]"
proof -
  note h = alpha_hd [OF N]
  have tw: "takeWhile is_word (N @ CHR '' '' # Y) = N"
    "takeWhile is_digit (N @ CHR '' '' # Y) = []"
    "takeWhile is_space (N @ CHR '' '' # Y) = []"
    "takeWhile is_digit Y = Y"
    using N Y h by (simp_all add: takeWhile_all alpha_word space_class takeWhile_none
        alpha_class takeWhile_all')
  have twY: "takeWhile is_space Y = []"
    using Y by (cases Y) (auto simp: digit_class)
  have n: "Suc 0 \<le> length N" using N by (cases N) simp_all
  show ?thesis
    using c n Y(2)
    by (simp add: match_start_def datePattern_def Let_def tw twY digit_class space_class)
qed

lemma days:
  assumes "1 \<le> d" "d \<le> 31"
  shows "list_all is_digit (show_nat d)
     \<and> (length (show_nat d) = 1 \<or> length (show_nat d) = 2)
     \<and> padStart2 [last (show_nat d)] = padStart2 (show_nat (d mod 10))"
proof -
  have "\<forall>d \<in> set [1 ..< 32].
     list_all is_digit (show_nat d)
     \<and> (length (show_nat d) = 1 \<or> length (show_nat d) = 2)
     \<and> padStart2 [last (show_nat d)] = padStart2 (show_nat (d mod 10))"
    by code_simp
  moreover have "d \<in> set [1 ..< 32]" using assms by simp
  ultimately show ?thesis by blast
qed

lemma month_names:
  assumes "1 \<le> m" "m \<le> 12"
  shows "months Loc_id ! (m - 1) \<noteq> [] \<and> list_all is_alpha (months Loc_id ! (m - 1))
     \<and> getMonthNumber (months Loc_id ! (m - 1)) = int m
     \<and> padZero (show_int (int m)) = padStart2 (show_nat m)"
proof -
  have "\<forall>m \<in> set [1 ..< 13].
     months Loc_id ! (m - 1) \<noteq> [] \<and> list_all is_alpha (months Loc_id ! (m - 1))
     \<and> getMonthNumber (months Loc_id ! (m - 1)) = int m
     \<and> padZero (show_int (int m)) = padStart2 (show_nat m)"
    by code_simp
  moreover have "m \<in> set [1 ..< 13]" using assms by simp
  ultimately show ?thesis by blast
qed

lemma match_formatted:
  assumes D: "list_all is_digit D" "length D = 1 \<or> length D = 2"
    and N: "N \<noteq> []" "list_all is_alpha N"
    and Y: "list_all is_digit Y" "length Y = 4"
  shows "match_start datePattern (D @ '' '' @ N @ '' '' @ Y)
           = Some [(3, Y), (2, N), (1, [last D])]"
proof -
  from D(2) consider c where "D = [c]" | c1 c2 where "D = [c1, c2]"
    by (cases D rule: list.exhaust; cases "tl D"; cases "tl (tl D)") auto
  then show ?thesis
  proof cases
    case 1
    then show ?thesis using D(1) match_day1 [OF _ N Y, of c] by simp
  next
    case 2
    then show ?thesis using D(1) match_day2 [OF _ _ N Y, of c1 c2] by simp
  qed
qed

lemma parse_formatted:
  assumes "length Y = 4" "list_all is_digit Y" "1 \<le> m" "m \<le> 12" "1 \<le> d" "d \<le> 31"
  shows "Parse_ToDate (show_nat d @ '' '' @ months Loc_id ! (m - 1) @ '' '' @ Y)
           = Inr (iso_date Y m (d mod 10))"
proof -
  note N = month_names [OF assms(3,4)]
  note D = days [OF assms(5,6)]
  have mt: "match_start datePattern (show_nat d @ '' '' @ months Loc_id ! (m - 1) @ '' '' @ Y)
              = Some [(3, Y), (2, months Loc_id ! (m - 1)), (1, [last (show_nat d)])]"
    using N D assms(1,2) by (intro match_formatted) simp_all
  show ?thesis
    unfolding Parse_ToDate_def mt
    using N D by (simp add: capture_def Let_def iso_date_def padZero_def)
qed

section \<open>Claims\<close>

subsection \<open>C1: the error count and the error sequence under re-validation\<close>

text \<open>
  C1, as stated, does not hold.  \<open>required\<close> fails on the empty field \<open>name\<close>, the user
  types \<open>Ann\<close>, and \<open>required\<close> is run again and passes: the field shows neither the
  invalid indicator nor a message, but the error count is still 1 and the entry of the
  failure is still in the error sequence.
\<close>

theorem revalidation_counterexample:
  "fst (required 0 '''' (constructor form [])) = False
   \<and> fst (required 0 '''' name_typed) = True
   \<and> \<not> el_invalid (page name_fixed 0)
   \<and> el_message (page name_fixed 0) = ''''
   \<and> errors name_fixed = 1
   \<and> errorMessages name_fixed = [(Some ''#name'', ''Wajib diisi.'')]"
  by code_simp

text \<open>
  C1, amended.  Every synchronous check adds 1 to the error count when it fails and nothing
  when it passes, so that after a batch of checks on a new validator the error count is the
  number of checks that failed.  A check that passes leaves the error sequence as it was
  (the entries of earlier failures stay), clears the invalid indicator and the message of
  its field, and run once more it passes again and changes nothing.
\<close>

theorem revalidation_keeps_count:
  "errors (snd (call M v w)) = errors w + (if fst (call M v w) then 0 else 1)
   \<and> (fst (call M v w) \<longrightarrow>
          errorMessages (snd (call M v w)) = errorMessages w
        \<and> \<not> el_invalid (page (snd (call M v w)) (target v))
        \<and> el_message (page (snd (call M v w)) (target v)) = ''''
        \<and> call M v (snd (call M v w)) = (True, snd (call M v w)))
   \<and> errors (forEach M vs (constructor pg out))
       = length (filter Not (results M vs (constructor pg out)))"
proof -
  have pass: "snd (call M v w) = setErrorMessage (target v) '''' w" if "fst (call M v w)"
    using call_shape that by (rule shape_pass_state)
  have again: "call M v (snd (call M v w)) = (True, snd (call M v w))" if "fst (call M v w)"
  proof -
    have "call M v (snd (call M v w)) = call M v w"
      by (simp add: pass [OF that] call_clear)
    also have "\<dots> = (True, snd (call M v w))"
      using that by (simp add: prod_eq_iff)
    finally show ?thesis .
  qed
  have count: "errors (forEach M vs (constructor pg out))
       = length (filter Not (results M vs (constructor pg out)))"
    by (simp add: forEach_errors constructor_def)
  show ?thesis
    using again count by (auto simp: pass call_errors)
qed

theorem revalidation_keeps_count_witness:
  "fst (call no_moment (V_required 0 '''') name_typed)
   \<and> errors (snd (call no_moment (V_required 0 '''') name_typed)) = errors name_typed
   \<and> errorMessages (snd (call no_moment (V_required 0 '''') name_typed))
       = errorMessages name_typed
   \<and> \<not> el_invalid (page (snd (call no_moment (V_required 0 '''') name_typed)) 0)
   \<and> el_message (page (snd (call no_moment (V_required 0 '''') name_typed)) 0) = ''''"
proof -
  have h: "fst (call no_moment (V_required 0 '''') name_typed)"
    by code_simp
  show ?thesis
    using h revalidation_keeps_count [of no_moment "V_required 0 ''''" name_typed "[]" form "[]"]
    by simp
qed

subsection \<open>C2: \<open>throwErrorMessage\<close>\<close>

text \<open>
  C2.  \<open>throwErrorMessage\<close> throws if and only if the error count is at least 1, and with an
  error count of 0 it returns normally and leaves the whole state (validator, page and
  console) as it was.
\<close>

theorem throwErrorMessage_iff:
  "((\<exists>e. fst (throwErrorMessage message w) = Inl e) \<longleftrightarrow> errors w \<ge> 1)
   \<and> (errors w = 0 \<longrightarrow> throwErrorMessage message w = (Inr (), w))"
  by (simp add: throwErrorMessage_def)

theorem throwErrorMessage_iff_witness:
  "errors (constructor form []) = 0
   \<and> throwErrorMessage ''stop'' (constructor form []) = (Inr (), constructor form [])"
  using throwErrorMessage_iff [of "''stop''" "constructor form []"]
  by (simp add: constructor_def)

subsection \<open>C3: \<open>range\<close> with the bounds 18 and 99\<close>

text \<open>
  C3 holds for the values \<open>17\<close>, \<open>18\<close> and \<open>99\<close>, on a text input and on a number input:
  the first fails and adds 1 to the error count, the other two pass.
\<close>

lemma range_17_18_99:
  assumes "k = InputText \<or> k = InputNumber"
  shows "failed (constructor (age_form k ''17'') [])
           (range_check 0 18 99 '''' (constructor (age_form k ''17'') []))"
    and "skipped (constructor (age_form k ''18'') [])
           (range_check 0 18 99 '''' (constructor (age_form k ''18'') []))"
    and "skipped (constructor (age_form k ''99'') [])
           (range_check 0 18 99 '''' (constructor (age_form k ''99'') []))"
  using assms by (auto simp: failed_def skipped_def; code_simp)+

text \<open>
  A value that \<open>parseFloat\<close> reads as \<open>NaN\<close> passes all three bound checks.
\<close>

lemma nan_passes_bounds:
  assumes "parseFloat (el_val (page w e)) = NaN"
  shows "skipped w (minValue e lo m w)" "skipped w (maxValue e hi m w)"
    "skipped w (range_check e lo hi m w)"
  using assms
  by (simp_all add: skipped_def minValue_def maxValue_def range_check_def val_def js_gt_def
      Let_def)

text \<open>
  C3 does not hold for the value \<open>abc\<close>: \<open>parseFloat\<close> gives \<open>NaN\<close>, both comparisons
  with the bounds are false, and \<open>range\<close> returns \<open>true\<close> on the text input with nothing
  counted and nothing recorded.
\<close>

theorem range_abc_passes:
  "parseFloat ''abc'' = NaN
   \<and> fst (range_check 0 18 99 '''' (constructor (age_form InputText ''abc'') [])) = True
   \<and> errors (snd (range_check 0 18 99 '''' (constructor (age_form InputText ''abc'') []))) = 0
   \<and> errorMessages (snd (range_check 0 18 99 '''' (constructor (age_form InputText ''abc'') [])))
       = []"
  by code_simp

subsection \<open>C4: \<open>required\<close> on an empty text-like field\<close>

text \<open>
  C4.  For a field that is a text, email, password or number input, a select or a textarea
  and whose value is the empty string, \<open>required\<close> returns false and the error count grows
  by exactly 1.
\<close>

theorem required_empty_text_like:
  assumes "el_kind (page w element) \<in>
             {InputText, InputEmail, InputPassword, InputNumber, Select, Textarea}"
    and "el_val (page w element) = ''''"
  shows "fst (required element message w) = False
         \<and> errors (snd (required element message w)) = errors w + 1"
  using assms by (simp add: required_def Let_def is_sel_def val_def)

theorem required_empty_text_like_witness:
  "el_kind (page (constructor form []) 2)
     \<in> {InputText, InputEmail, InputPassword, InputNumber, Select, Textarea}
   \<and> el_val (page (constructor form []) 2) = ''''
   \<and> fst (required 2 '''' (constructor form [])) = False
   \<and> errors (snd (required 2 '''' (constructor form []))) = 1"
proof -
  have k: "el_kind (page (constructor form []) 2)
             \<in> {InputText, InputEmail, InputPassword, InputNumber, Select, Textarea}"
    by (simp add: constructor_def form_def field_def)
  have v: "el_val (page (constructor form []) 2) = ''''"
    by (simp add: constructor_def form_def field_def)
  show ?thesis
    using k v required_empty_text_like [OF k v, of "''''"] by (simp add: constructor_def)
qed

subsection \<open>C5: \<open>validateFields\<close>\<close>

text \<open>
  What holds of every batch: all the checks run, in the order of the array, whatever the
  earlier ones returned (\<open>results\<close> has one value for each of them); the error count grows
  by the number of checks that failed; and the batch throws exactly when the error count
  is then at least 1.
\<close>

lemma validateFields_count:
  "length (results M vs w) = length vs"
  "errors (snd (validateFields M vs w)) = errors w + length (filter Not (results M vs w))"
  "(\<exists>e. fst (validateFields M vs w) = Inl e)
     \<longleftrightarrow> 1 \<le> errors w + length (filter Not (results M vs w))"
proof -
  show "length (results M vs w) = length vs"
    by (induction vs arbitrary: w) simp_all
  show "errors (snd (validateFields M vs w)) = errors w + length (filter Not (results M vs w))"
    by (simp add: validateFields_def throwErrorMessage_def forEach_errors)
  show "(\<exists>e. fst (validateFields M vs w) = Inl e)
     \<longleftrightarrow> 1 \<le> errors w + length (filter Not (results M vs w))"
    by (simp add: validateFields_def throwErrorMessage_def forEach_errors)
qed

text \<open>
  When no check of the batch is applied to a select, the new entries of the error sequence
  are those of the failing checks, one for each, in the order of the batch.
\<close>

lemma forEach_entries_in_order:
  assumes "\<forall>v \<in> set vs. el_kind (page w (target v)) \<noteq> Select"
  shows "map fst (errorMessages (forEach M vs w))
           = map fst (errorMessages w)
             @ map (\<lambda>v. Some (CHR ''#'' # js_str (el_id (page w (target v))))) (failing M vs w)"
  using assms
proof (induction vs arbitrary: w)
  case Nil
  show ?case by (simp add: failing_def)
next
  case (Cons v vs)
  let ?w = "snd (call M v w)"
  note sh = call_shape [of v w M]
  have st: "el_id (page ?w x) = el_id (page w x)" "el_kind (page ?w x) = el_kind (page w x)" for x
    using shape_static [OF sh] by simp_all
  obtain msg where em: "errorMessages ?w
      = errorMessages w @ (if fst (call M v w) then [] else entries (page w (target v)) msg)"
    using shape_entries [OF sh] by blast
  have ns: "el_kind (page w (target v)) \<noteq> Select" using Cons.prems by simp
  have "\<forall>v \<in> set vs. el_kind (page ?w (target v)) \<noteq> Select"
    using Cons.prems by (simp add: st)
  from Cons.IH [OF this] show ?case
    using ns by (simp add: failing_Cons em st entries_def)
qed

text \<open>
  C5 does not hold of the error sequence.  A batch of one rule, \<open>required\<close> on the select
  \<open>city\<close> with the empty option chosen, on a new validator: the rule fails, the error count
  is 1 and the batch throws, but the error sequence has two entries, because
  \<open>#setErrorMessage\<close> pushes one entry in its \<open>select\<close> branch and one more after it.
\<close>

theorem validateFields_select_two_entries:
  "results no_moment [V_required 2 ''''] (constructor form []) = [False]
   \<and> fst (validateFields no_moment [V_required 2 ''''] (constructor form []))
       = Inl (Error ''Masih ada form yang belum diisi atau salah.'')
   \<and> errors (snd (validateFields no_moment [V_required 2 ''''] (constructor form []))) = 1
   \<and> errorMessages (snd (validateFields no_moment [V_required 2 ''''] (constructor form [])))
       = [(Some ''city'', ''Wajib diisi.''), (Some ''#city'', ''Wajib diisi.'')]"
  by code_simp

subsection \<open>C6: a rejected asynchronous predicate\<close>

text \<open>
  C6.  When the promise of the predicate given to \<open>asyncValidation\<close> rejects, the promise
  that \<open>asyncValidation\<close> returns is fulfilled with \<open>false\<close>; the error count has grown by
  1, the message \<open>Terjadi kesalahan saat validasi.\<close> has been appended to the error
  sequence and is shown on the field, which is marked invalid.  The same holds of the part
  of the method that runs after the \<open>await\<close>, in whatever state it is resumed.
\<close>

theorem asyncValidation_rejected:
  assumes "asyncValidatorFunction (el_val (page w element)) = Rejected"
  shows "fst (asyncValidation element asyncValidatorFunction message w) = Fulfilled False
       \<and> errors (snd (asyncValidation element asyncValidatorFunction message w)) = errors w + 1
       \<and> errorMessages (snd (asyncValidation element asyncValidatorFunction message w))
           = errorMessages w @ entries (page w element) ''Terjadi kesalahan saat validasi.''
       \<and> el_message (page (snd (asyncValidation element asyncValidatorFunction message w)) element)
           = ''Terjadi kesalahan saat validasi.''
       \<and> el_invalid (page (snd (asyncValidation element asyncValidatorFunction message w)) element)
       \<and> (\<forall>w'. fst (asyncValidation_resume element message Rejected w') = Fulfilled False
                \<and> errors (snd (asyncValidation_resume element message Rejected w')) = errors w' + 1)"
  using assms
  by (simp add: asyncValidation_def asyncValidation_call_def asyncValidation_resume_def val_def
      errorMessages_set entries_def)

theorem asyncValidation_rejected_witness:
  "rejecting (el_val (page (constructor form []) 0)) = Rejected
   \<and> fst (asyncValidation 0 rejecting '''' (constructor form [])) = Fulfilled False
   \<and> errors (snd (asyncValidation 0 rejecting '''' (constructor form []))) = 1
   \<and> errorMessages (snd (asyncValidation 0 rejecting '''' (constructor form [])))
       = [(Some ''#name'', ''Terjadi kesalahan saat validasi.'')]"
proof -
  have r: "rejecting (el_val (page (constructor form []) 0)) = Rejected"
    by (simp add: rejecting_def)
  show ?thesis
    using r asyncValidation_rejected [of rejecting "constructor form []" 0 "''''"]
    by (simp add: constructor_def form_def field_def entries_def js_str_def)
qed

subsection \<open>C7: the handler registered by a failing check\<close>

text \<open>
  C7, as stated, does not hold.  \<open>range\<close> with the bounds 18 and 99 fails on the field
  \<open>age\<close> holding \<open>17\<close> and marks it invalid; the user changes the value to \<open>16\<close>; the
  indicator and the message are cleared although \<open>range\<close> still fails on the new value.
\<close>

theorem clearing_handler_counterexample:
  "fst (range_check 1 18 99 '''' (constructor form [])) = False
   \<and> el_invalid (page age_failed 1)
   \<and> el_val (page age_edited 1) = ''16''
   \<and> fst (range_check 1 18 99 '''' age_edited) = False
   \<and> \<not> el_invalid (page age_edited 1)
   \<and> el_message (page age_edited 1) = ''''"
  by code_simp

text \<open>
  C7, amended.  A failing synchronous check marks its field invalid, shows a message that
  is not empty, and registers a handler for at least one event of the field.  When the user
  then changes the value and one of the events registered on the field is raised, the
  invalid indicator and the message are cleared whatever the new value is: nothing is
  checked again, and the error count and the error sequence stay as they are.
\<close>

theorem failing_check_registers_clearing_handler:
  fixes M :: "'m moment_api" and v :: validation and w w' :: state and e :: ref
  defines "w' \<equiv> snd (call M v w)" and "e \<equiv> target v"
  assumes "\<not> fst (call M v w)"
  shows "el_invalid (page w' e) \<and> el_message (page w' e) \<noteq> ''''
       \<and> el_listeners (page w' e) \<noteq> [] \<and> last (el_listeners (page w' e)) \<noteq> []
       \<and> (\<forall>evs \<in> set (el_listeners (page w' e)). \<forall>ev \<in> set evs. \<forall>x.
              \<not> el_invalid (page (user_edit e x ev w') e)
            \<and> el_message (page (user_edit e x ev w') e) = ''''
            \<and> errors (user_edit e x ev w') = errors w'
            \<and> errorMessages (user_edit e x ev w') = errorMessages w')"
proof -
  obtain msg evs where ne: "msg \<noteq> ''''" "evs \<noteq> []"
    and st: "w' = on e evs (setErrorMessage e msg
               ((setErrorMessage e '''' w)\<lparr>errors := errors w + 1\<rparr>))"
    using shape_fail_state [OF call_shape assms(3)] unfolding w'_def e_def by blast
  have after: "user_edit e x ev w' = setErrorMessage e '''' (set_val e x w')"
    if "evs' \<in> set (el_listeners (page w' e))" and "ev \<in> set evs'" for evs' ev x
    unfolding user_edit_def using that by (intro trigger_listened [of evs']) simp_all
  have shown: "el_invalid (page w' e) \<and> el_message (page w' e) \<noteq> ''''
       \<and> el_listeners (page w' e) \<noteq> [] \<and> last (el_listeners (page w' e)) \<noteq> []"
    using ne by (simp add: st)
  then show ?thesis
    by (auto simp: after)
qed

theorem failing_check_registers_clearing_handler_witness:
  "\<not> fst (call no_moment (V_range 1 18 99 '''') (constructor form []))
   \<and> [Keyup, Change]
       \<in> set (el_listeners (page (snd (call no_moment (V_range 1 18 99 '''') (constructor form []))) 1))
   \<and> Change \<in> set [Keyup, Change]
   \<and> \<not> el_invalid (page (user_edit 1 ''16'' Change
           (snd (call no_moment (V_range 1 18 99 '''') (constructor form [])))) 1)
   \<and> el_message (page (user_edit 1 ''16'' Change
           (snd (call no_moment (V_range 1 18 99 '''') (constructor form [])))) 1) = ''''"
proof -
  have h: "\<not> fst (call no_moment (V_range 1 18 99 '''') (constructor form []))"
    by code_simp
  have reg: "[Keyup, Change]
       \<in> set (el_listeners (page (snd (call no_moment (V_range 1 18 99 '''') (constructor form []))) 1))"
    by code_simp
  have ev: "Change \<in> set [Keyup, Change]"
    by simp
  show ?thesis
    using h reg ev failing_check_registers_clearing_handler [OF h] by fastforce
qed

subsection \<open>C8: \<open>Format.ToDate\<close> followed by \<open>Parse.ToDate\<close>\<close>

text \<open>
  What the two functions do to every date with a year of four digits: the month and the
  year come back, and of the day only its last digit.
\<close>

lemma roundtrip_general:
  assumes "length Y = 4" "list_all is_digit Y" "1 \<le> m" "m \<le> 12" "1 \<le> d" "d \<le> 31"
  shows "Parse_ToDate (Format_ToDate (iso_date Y m d) Loc_id) = Inr (iso_date Y m (d mod 10))"
  unfolding format_iso [OF assms(2-6)] using assms by (rule parse_formatted)

text \<open>
  So the date comes back as it was when the day is at most 9, and comes back changed when
  the day is 10 or more.
\<close>

lemma roundtrip_day_below_10:
  assumes "length Y = 4" "list_all is_digit Y" "1 \<le> m" "m \<le> 12" "1 \<le> d" "d \<le> 9"
  shows "Parse_ToDate (Format_ToDate (iso_date Y m d) Loc_id) = Inr (iso_date Y m d)"
  using roundtrip_general [of Y m d] assms by simp

lemma roundtrip_day_from_10:
  assumes "length Y = 4" "list_all is_digit Y" "1 \<le> m" "m \<le> 12" "10 \<le> d" "d \<le> 31"
  shows "Parse_ToDate (Format_ToDate (iso_date Y m d) Loc_id) \<noteq> Inr (iso_date Y m d)"
proof -
  have "\<forall>d \<in> set [10 ..< 32]. padStart2 (show_nat (d mod 10)) \<noteq> padStart2 (show_nat d)"
    by code_simp
  moreover have "d \<in> {10 ..< 32}" using assms by simp
  then have "d \<in> set [10 ..< 32]" by (simp only: set_upt)
  ultimately have "padStart2 (show_nat (d mod 10)) \<noteq> padStart2 (show_nat d)" by blast
  then have "iso_date Y m (d mod 10) \<noteq> iso_date Y m d"
    by (simp add: iso_date_def)
  then show ?thesis
    using roundtrip_general [of Y m d] assms by simp
qed

text \<open>An instance with a day of one digit.\<close>

lemma roundtrip_2023_12_05:
  "Parse_ToDate (Format_ToDate ''2023-12-05'' Loc_id) = Inr ''2023-12-05''"
  by code_simp

text \<open>
  C8 does not hold for a day of two digits.  \<open>2023-12-15\<close> is formatted as
  \<open>15 Desember 2023\<close>; in \<open>Parse.ToDate\<close> the optional group for the name of the day,
  \<open>(?:\w+,?\s*)?\<close>, takes the \<open>1\<close>, the group for the day captures \<open>5\<close>, and the result
  is \<open>2023-12-05\<close>.
\<close>

theorem roundtrip_2023_12_15:
  "Format_ToDate ''2023-12-15'' Loc_id = ''15 Desember 2023''
   \<and> Parse_ToDate (Format_ToDate ''2023-12-15'' Loc_id) = Inr ''2023-12-05''"
  by code_simp

subsection \<open>C9: the error count never goes down\<close>

text \<open>
  C9.  No sequence of operations on a validator (checks, asynchronous checks, batches,
  \<open>throwErrorMessage\<close>, events on the fields, changes of their values) lowers the error
  count; so once it is at least 1, \<open>throwErrorMessage\<close> throws after any such sequence,
  also when every field has been validated again with success.  Only a new instance, made
  by \<open>constructor\<close>, has the count 0.
\<close>

theorem errors_never_decrease:
  "errors w \<le> errors (run M xs w)
   \<and> (1 \<le> errors w \<longrightarrow> fst (throwErrorMessage msg (run M xs w)) = Inl (Error msg))
   \<and> errors (constructor pg out) = 0"
proof -
  have le: "errors w \<le> errors (run M xs w)" by (rule run_errors)
  then have "1 \<le> errors w \<Longrightarrow> 1 \<le> errors (run M xs w)" by simp
  then show ?thesis using le by (simp add: throwErrorMessage_def constructor_def)
qed

theorem errors_never_decrease_witness:
  "1 \<le> errors name_failed
   \<and> fst (call no_moment (V_required 0 '''') (run no_moment [Edit 0 ''Ann'', Fire 0 Keyup] name_failed))
   \<and> fst (throwErrorMessage ''stop''
            (run no_moment [Edit 0 ''Ann'', Fire 0 Keyup, Check (V_required 0 '''')] name_failed))
       = Inl (Error ''stop'')"
proof -
  have h: "1 \<le> errors name_failed"
    by code_simp
  have p: "fst (call no_moment (V_required 0 '''') (run no_moment [Edit 0 ''Ann'', Fire 0 Keyup] name_failed))"
    by code_simp
  show ?thesis
    using h p errors_never_decrease [of name_failed no_moment
        "[Edit 0 ''Ann'', Fire 0 Keyup, Check (V_required 0 '''')]" "''stop''"]
    by blast
qed

subsection \<open>C10: checks on a field that their selector does not match\<close>

text \<open>
  C10.  Each check that tests the field against a selector before it looks at the value
  returns \<open>true\<close> and leaves the error count as it was when the field does not match that
  selector, whatever the value and the other arguments are.  \<open>alphabetic\<close> is the
  exception: on a field that is neither a text input nor a textarea it fails and adds 1 to
  the error count.
\<close>

theorem selector_mismatch:
  assumes k: "el_kind (page w e) = k"
  shows "(k \<notin> {InputText, InputEmail, InputPassword, Textarea} \<longrightarrow>
            skipped w (minLength e n m w) \<and> skipped w (maxLength e n m w))
       \<and> (k \<notin> {InputText, Textarea} \<longrightarrow>
            skipped w (alphanumeric e m w) \<and> skipped w (pattern e regex m w))
       \<and> (k \<notin> {InputText, InputNumber, Textarea} \<longrightarrow> skipped w (numeric e m w))
       \<and> (k \<notin> {InputNumber, InputText} \<longrightarrow>
            skipped w (minValue e lo m w) \<and> skipped w (maxValue e hi m w)
            \<and> skipped w (range_check e lo hi m w))
       \<and> (k \<noteq> InputFile \<longrightarrow>
            skipped w (fileType e ts m w) \<and> skipped w (fileSize e sz m w)
            \<and> skipped w (fileExtension e xs m w))
       \<and> (k \<notin> {InputText, InputDate} \<longrightarrow>
            skipped w (date M e f m w) \<and> skipped w (minDate M e a f m w)
            \<and> skipped w (maxDate M e b f m w) \<and> skipped w (dateBetween M e a b f m w))
       \<and> (k \<notin> {InputText, InputDatetimeLocal} \<longrightarrow>
            skipped w (datetime M e f m w) \<and> skipped w (minDatetime M e a f m w)
            \<and> skipped w (maxDatetime M e b f m w) \<and> skipped w (datetimeBetween M e a b f m w))
       \<and> (k \<notin> {InputText, InputTime} \<longrightarrow> skipped w (time M e f m w))
       \<and> (k \<notin> {InputText, InputEmail} \<longrightarrow> skipped w (email e m w))
       \<and> (k \<notin> {InputText, InputUrl} \<longrightarrow> skipped w (url e m w))
       \<and> (k \<notin> {InputText, InputTel} \<longrightarrow> skipped w (phoneNumber e m w))
       \<and> (k \<notin> {InputText, InputEmail, InputPassword, InputNumber, Select, Textarea,
                 InputRadio, InputCheckbox, InputFile} \<longrightarrow> skipped w (required e m w))
       \<and> (k \<notin> {InputText, Textarea} \<longrightarrow> failed w (alphabetic e m w))"
proof -
  have 1: "k \<notin> {InputText, InputEmail, InputPassword, Textarea} \<longrightarrow>
            skipped w (minLength e n m w) \<and> skipped w (maxLength e n m w)"
    using k by (simp add: skipped_def minLength_def maxLength_def is_sel_def Let_def)
  have 2: "k \<notin> {InputText, Textarea} \<longrightarrow>
            skipped w (alphanumeric e m w) \<and> skipped w (pattern e regex m w)"
    using k by (simp add: skipped_def alphanumeric_def pattern_def is_sel_def Let_def)
  have 3: "k \<notin> {InputText, InputNumber, Textarea} \<longrightarrow> skipped w (numeric e m w)"
    using k by (simp add: skipped_def numeric_def is_sel_def Let_def)
  have 4: "k \<notin> {InputNumber, InputText} \<longrightarrow>
            skipped w (minValue e lo m w) \<and> skipped w (maxValue e hi m w)
            \<and> skipped w (range_check e lo hi m w)"
    using k
    by (simp add: skipped_def minValue_def maxValue_def range_check_def is_sel_def Let_def)
  have 5: "k \<noteq> InputFile \<longrightarrow>
            skipped w (fileType e ts m w) \<and> skipped w (fileSize e sz m w)
            \<and> skipped w (fileExtension e xs m w)"
    using k
    by (simp add: skipped_def fileType_def fileSize_def fileExtension_def is_sel_def Let_def)
  have 6: "k \<notin> {InputText, InputDate} \<longrightarrow>
            skipped w (date M e f m w) \<and> skipped w (minDate M e a f m w)
            \<and> skipped w (maxDate M e b f m w) \<and> skipped w (dateBetween M e a b f m w)"
    using k
    by (simp add: skipped_def date_def minDate_def maxDate_def dateBetween_def
        is_sel_def Let_def)
  have 7: "k \<notin> {InputText, InputDatetimeLocal} \<longrightarrow>
            skipped w (datetime M e f m w) \<and> skipped w (minDatetime M e a f m w)
            \<and> skipped w (maxDatetime M e b f m w) \<and> skipped w (datetimeBetween M e a b f m w)"
    using k
    by (simp add: skipped_def datetime_def minDatetime_def maxDatetime_def
        datetimeBetween_def is_sel_def Let_def)
  have 8: "k \<notin> {InputText, InputTime} \<longrightarrow> skipped w (time M e f m w)"
    using k by (simp add: skipped_def time_def is_sel_def Let_def)
  have 9: "k \<notin> {InputText, InputEmail} \<longrightarrow> skipped w (email e m w)"
    using k by (simp add: skipped_def email_def is_sel_def Let_def)
  have 10: "k \<notin> {InputText, InputUrl} \<longrightarrow> skipped w (url e m w)"
    using k by (simp add: skipped_def url_def is_sel_def Let_def)
  have 11: "k \<notin> {InputText, InputTel} \<longrightarrow> skipped w (phoneNumber e m w)"
    using k by (simp add: skipped_def phoneNumber_def is_sel_def Let_def)
  have 12: "k \<notin> {InputText, InputEmail, InputPassword, InputNumber, Select, Textarea,
                 InputRadio, InputCheckbox, InputFile} \<longrightarrow> skipped w (required e m w)"
    using k by (simp add: skipped_def required_def is_sel_def Let_def)
  have 13: "k \<notin> {InputText, Textarea} \<longrightarrow> failed w (alphabetic e m w)"
    using k by (simp add: failed_def alphabetic_def is_sel_def Let_def)
  from 1 2 3 4 5 6 7 8 9 10 11 12 13 show ?thesis by blast
qed

theorem selector_mismatch_witness:
  "el_kind (page (constructor form []) 3) = OtherElement
   \<and> skipped (constructor form []) (minLength 3 5 '''' (constructor form []))
   \<and> skipped (constructor form []) (maxLength 3 5 '''' (constructor form []))
   \<and> skipped (constructor form []) (alphanumeric 3 '''' (constructor form []))
   \<and> skipped (constructor form []) (pattern 3 (\<lambda>s. False) '''' (constructor form []))
   \<and> skipped (constructor form []) (numeric 3 '''' (constructor form []))
   \<and> skipped (constructor form []) (minValue 3 18 '''' (constructor form []))
   \<and> skipped (constructor form []) (maxValue 3 99 '''' (constructor form []))
   \<and> skipped (constructor form []) (range_check 3 18 99 '''' (constructor form []))
   \<and> skipped (constructor form []) (fileType 3 [] '''' (constructor form []))
   \<and> skipped (constructor form []) (fileSize 3 0 '''' (constructor form []))
   \<and> skipped (constructor form []) (fileExtension 3 [] '''' (constructor form []))
   \<and> skipped (constructor form []) (date no_moment 3 ''YYYY-MM-DD'' '''' (constructor form []))
   \<and> skipped (constructor form []) (datetime no_moment 3 ''YYYY-MM-DD'' '''' (constructor form []))
   \<and> skipped (constructor form []) (time no_moment 3 ''YYYY-MM-DD'' '''' (constructor form []))
   \<and> skipped (constructor form []) (email 3 '''' (constructor form []))
   \<and> skipped (constructor form []) (url 3 '''' (constructor form []))
   \<and> skipped (constructor form []) (phoneNumber 3 '''' (constructor form []))
   \<and> skipped (constructor form []) (required 3 '''' (constructor form []))
   \<and> failed (constructor form []) (alphabetic 3 '''' (constructor form []))"
proof -
  have k: "el_kind (page (constructor form []) 3) = OtherElement"
    by (simp add: constructor_def form_def field_def)
  show ?thesis
    using k selector_mismatch [OF k, where n = 5 and m = "''''" and regex = "\<lambda>s. False"
        and lo = 18 and hi = 99 and ts = "[]" and sz = 0 and xs = "[]" and M = no_moment
        and f = "''YYYY-MM-DD''" and a = "''''" and b = "''''"]
    by simp
qed

end
